(* ===== verification/Prelude.thy ===== *)
theory Prelude
  imports Main "HOL-Library.AList"
begin

text \<open>
  Shared vocabulary of the development: the decimal notation of natural numbers
  (used by JavaScript's \<open>Number::toString\<close> and by the array-index test on
  property keys), \<open>Array.prototype.join\<close> on strings, the collection
  \<open>js_eval\<close> of the rewrite rules that evaluate the program's literals, and
  generic lemmas on association lists and strings that the component theories share.
\<close>

named_theorems js_eval "rules that evaluate the literal data of the configuration"

type_synonym key_code = string

definition digit_char :: "nat \<Rightarrow> char" where
  "digit_char d = char_of (48 + d)"

text \<open>Decimal notation without leading zeros, as \<open>String(n)\<close> prints a natural number.\<close>

fun nat_to_str :: "nat \<Rightarrow> string" where
  "nat_to_str n = (if n < 10 then [digit_char n] else nat_to_str (n div 10) @ [digit_char (n mod 10)])"

definition is_digit :: "char \<Rightarrow> bool" where
  "is_digit c \<longleftrightarrow> (48::nat) \<le> of_char c \<and> of_char c \<le> (57::nat)"

text \<open>Reading a string of decimal digits; \<open>None\<close> for the empty string or a non-digit.\<close>

fun digits_val :: "nat \<Rightarrow> string \<Rightarrow> nat option" where
  "digits_val acc [] = Some acc"
| "digits_val acc (c # cs) =
     (if is_digit c then digits_val (10 * acc + (of_char c - (48::nat))) cs else None)"

definition str_to_nat :: "string \<Rightarrow> nat option" where
  "str_to_nat s = (if s = [] then None else digits_val 0 s)"

text \<open>\<open>Array.prototype.join\<close> on a list of strings.\<close>

fun join :: "string \<Rightarrow> string list \<Rightarrow> string" where
  "join sep [] = []"
| "join sep [x] = x"
| "join sep (x # y # ys) = x @ sep @ join sep (y # ys)"

declare nat_to_str.simps [simp del]

lemma digit_char_is_digit [simp]: "d < 10 \<Longrightarrow> is_digit (digit_char d)"
  by (simp add: digit_char_def is_digit_def)

lemma of_char_digit_char [simp]: "d < 10 \<Longrightarrow> of_char (digit_char d) = 48 + d"
  by (simp add: digit_char_def)

lemma digit_char_zero: "digit_char 0 = CHR ''0''"
proof -
  have "of_char (CHR ''0'') = (48::nat)" by simp
  then show ?thesis using char_of_char [of "CHR ''0''"] by (simp add: digit_char_def)
qed

lemma nat_to_str_nonempty [simp]: "nat_to_str n \<noteq> []"
  by (subst nat_to_str.simps) simp

lemma nat_to_str_digits: "\<forall>c \<in> set (nat_to_str n). is_digit c"
proof (induction n rule: nat_to_str.induct)
  case (1 n)
  then show ?case by (subst nat_to_str.simps) auto
qed

lemma digits_val_append:
  "digits_val acc (xs @ ys) = (case digits_val acc xs of None \<Rightarrow> None | Some a \<Rightarrow> digits_val a ys)"
  by (induction acc xs rule: digits_val.induct) auto

text \<open>Reading back the decimal notation gives the number: the round trip of
  \<open>nat_to_str\<close> and \<open>str_to_nat\<close>, generalised over the accumulator.\<close>

lemma digits_val_nat_to_str: "digits_val acc (nat_to_str n) = Some (acc * 10 ^ length (nat_to_str n) + n)"
proof (induction n arbitrary: acc rule: nat_to_str.induct)
  case (1 n)
  show ?case
  proof (cases "n < 10")
    case True
    then show ?thesis by (subst (1 2) nat_to_str.simps) simp
  next
    case False
    then have eq: "nat_to_str n = nat_to_str (n div 10) @ [digit_char (n mod 10)]"
      by (subst nat_to_str.simps) simp
    have "n = 10 * (n div 10) + n mod 10" by simp
    with False "1.IH" show ?thesis
      by (simp add: eq digits_val_append algebra_simps)
  qed
qed

lemma str_to_nat_nat_to_str [simp]: "str_to_nat (nat_to_str n) = Some n"
  by (simp add: str_to_nat_def digits_val_nat_to_str)

lemma nat_to_str_inj: "nat_to_str m = nat_to_str n \<Longrightarrow> m = n"
  by (metis option.inject str_to_nat_nat_to_str)

lemma join_append_Cons:
  "xs \<noteq> [] \<Longrightarrow> join sep (xs @ y # ys) = join sep xs @ sep @ join sep (y # ys)"
  by (induction sep xs rule: join.induct) auto

lemma map_of_keys_None: "k \<notin> set (map fst ps) \<Longrightarrow> map_of ps k = None"
  by (simp add: map_of_eq_None_iff)

lemma update_keys_notin:
  "k \<notin> set (map fst ps) \<Longrightarrow> AList.update k v ps = ps @ [(k, v)]"
  by (induction ps) auto

lemma update_keys_in:
  "k \<in> set (map fst ps) \<Longrightarrow> map fst (AList.update k v ps) = map fst ps"
  by (induction ps) auto

lemma digit_char_inj: "a < 10 \<Longrightarrow> b < 10 \<Longrightarrow> digit_char a = digit_char b \<Longrightarrow> a = b"
  by (metis add_left_cancel of_char_digit_char)

lemma nat_to_str_hd: "0 < m \<Longrightarrow> hd (nat_to_str m) \<noteq> CHR ''0''"
proof (induction m rule: nat_to_str.induct)
  case (1 m)
  have z: "CHR ''0'' = digit_char 0" by (simp add: digit_char_zero)
  show ?case
  proof (cases "m < 10")
    case True
    with "1.prems" z digit_char_inj [of m 0] show ?thesis by (subst nat_to_str.simps) auto
  next
    case False
    then have "0 < m div 10" by simp
    with False "1.IH" show ?thesis by (subst nat_to_str.simps) simp
  qed
qed

lemma nat_to_str_leading: "hd (nat_to_str m) = CHR ''0'' \<Longrightarrow> length (nat_to_str m) = 1"
proof -
  assume h: "hd (nat_to_str m) = CHR ''0''"
  with nat_to_str_hd have "m = 0" by fastforce
  then show ?thesis by (simp add: nat_to_str.simps)
qed

lemma hd_nat_to_str_not_minus: "hd (nat_to_str m) \<noteq> CHR ''-''"
proof -
  have "is_digit (hd (nat_to_str m))" using nat_to_str_digits [of m] by (simp add: hd_in_set)
  then show ?thesis by (auto simp: is_digit_def)
qed

lemma join_Cons_concat: "join sep (x # xs) = x @ concat (map (\<lambda>y. sep @ y) xs)"
  by (induction xs arbitrary: x) simp_all

text \<open>Lists searched and edited as the runtime model does.\<close>

lemma find_append_case: "find P (xs @ ys) = (case find P xs of None \<Rightarrow> find P ys | Some x \<Rightarrow> Some x)"
  by (induction xs) auto

lemma mem_remove1: "y \<noteq> x \<Longrightarrow> y \<in> set xs \<Longrightarrow> y \<in> set (remove1 x xs)"
  by (induction xs) auto

lemma find_SomeD: "find P xs = Some x \<Longrightarrow> x \<in> set xs \<and> P x"
  by (induction xs) (auto split: if_splits)

end
