(* ===== verification/JsValue.thy ===== *)
theory JsValue
  imports Prelude
begin

text \<open>
  The JavaScript values the configuration is built from, and the two language
  constructs \<open>karabiner.js\<close> builds them with: object literals with spread
  (\<open>{...DEVICE_DEFAULTS, identifiers: ...}\<close>) and property reads. An object is
  the list of its own properties in the order \<open>[[OwnPropertyKeys]]\<close> enumerates
  them: keys that are array indices first, in ascending numeric order, then the other
  keys in insertion order. \<open>obj_put\<close> is \<open>CreateDataProperty\<close>: an existing key
  keeps its position and takes the new value, a new key goes to its place in that order.
  Numbers are integers (every number of the program is an integer literal).
\<close>

datatype jval =
    JNull
  | JBool bool
  | JNum int
  | JStr string
  | JArr "jval list"
  | JObj "(string \<times> jval) list"

type_synonym props = "(string \<times> jval) list"

text \<open>An array index is the canonical decimal notation of a number below \<open>2^32 - 1\<close>.\<close>

definition index_key :: "string \<Rightarrow> nat option" where
  "index_key k =
     (case str_to_nat k of
        None \<Rightarrow> None
      | Some n \<Rightarrow> if n < 4294967295 \<and> nat_to_str n = k then Some n else None)"

fun insert_index :: "string \<Rightarrow> nat \<Rightarrow> jval \<Rightarrow> props \<Rightarrow> props" where
  "insert_index k n v [] = [(k, v)]"
| "insert_index k n v ((k', v') # ps) =
     (case index_key k' of
        Some m \<Rightarrow> if m < n then (k', v') # insert_index k n v ps else (k, v) # (k', v') # ps
      | None \<Rightarrow> (k, v) # (k', v') # ps)"

definition obj_put :: "string \<Rightarrow> jval \<Rightarrow> props \<Rightarrow> props" where
  "obj_put k v ps =
     (if k \<in> set (map fst ps) then AList.update k v ps
      else case index_key k of
             Some n \<Rightarrow> insert_index k n v ps
           | None \<Rightarrow> ps @ [(k, v)])"

text \<open>\<open>CopyDataProperties\<close>: the properties of a spread source, put one by one.\<close>

fun put_all :: "props \<Rightarrow> props \<Rightarrow> props" where
  "put_all ps [] = ps"
| "put_all ps ((k, v) # qs) = put_all (obj_put k v ps) qs"

text \<open>The own enumerable properties a spread copies: none for \<open>null\<close>, booleans and
  numbers, the indexed elements of arrays and the characters of strings.\<close>

fun own_props :: "jval \<Rightarrow> props" where
  "own_props (JStr s) = zip (map nat_to_str [0..<length s]) (map (\<lambda>c. JStr [c]) s)"
| "own_props (JArr xs) = zip (map nat_to_str [0..<length xs]) xs"
| "own_props (JObj ps) = ps"
| "own_props _ = []"

datatype prop_def = Field string jval | Spread jval

text \<open>An object literal evaluates its property definitions left to right.\<close>

fun eval_defs :: "props \<Rightarrow> prop_def list \<Rightarrow> props" where
  "eval_defs ps [] = ps"
| "eval_defs ps (Field k v # ds) = eval_defs (obj_put k v ps) ds"
| "eval_defs ps (Spread s # ds) = eval_defs (put_all ps (own_props s)) ds"

definition obj_lit :: "prop_def list \<Rightarrow> jval" where
  "obj_lit ds = JObj (eval_defs [] ds)"

text \<open>Reading a property, \<open>v[k]\<close>; \<open>None\<close> is \<open>undefined\<close>.\<close>

fun get :: "jval \<Rightarrow> string \<Rightarrow> jval option" where
  "get (JObj ps) k = map_of ps k"
| "get (JArr xs) k =
     (case index_key k of Some i \<Rightarrow> if i < length xs then Some (xs ! i) else None | None \<Rightarrow> None)"
| "get _ k = None"

fun get_path :: "jval \<Rightarrow> string list \<Rightarrow> jval option" where
  "get_path v [] = Some v"
| "get_path v (k # ks) = (case get v k of None \<Rightarrow> None | Some w \<Rightarrow> get_path w ks)"

text \<open>\<open>Object.keys\<close>: the keys of an object in enumeration order.\<close>

fun obj_keys :: "jval \<Rightarrow> string list" where
  "obj_keys (JObj ps) = map fst ps"
| "obj_keys _ = []"

text \<open>The invariant of an object's property list: distinct keys, array indices first
  and ascending.\<close>

definition index_before :: "string \<Rightarrow> string \<Rightarrow> bool" where
  "index_before k k' =
     (case (index_key k, index_key k') of
        (Some m, Some n) \<Rightarrow> m < n
      | (None, Some n) \<Rightarrow> False
      | _ \<Rightarrow> True)"

definition wf_props :: "props \<Rightarrow> bool" where
  "wf_props ps \<longleftrightarrow> distinct (map fst ps) \<and> sorted_wrt index_before (map fst ps)"

text \<open>Array indices: the key determines its index and the index its key; the
  order on keys is transitive, so an ordered property list stays ordered when an index
  is inserted at its place.\<close>

lemma index_key_inj: "index_key k = Some n \<Longrightarrow> index_key k' = Some n \<Longrightarrow> k = k'"
  by (auto simp: index_key_def split: option.splits if_splits)

lemma index_before_trans: "index_before a b \<Longrightarrow> index_before b c \<Longrightarrow> index_before a c"
  by (auto simp: index_before_def split: option.splits)

lemma set_insert_index: "set (insert_index k n v ps) = insert (k, v) (set ps)"
  by (induction ps) (auto split: option.splits if_splits)

lemma map_of_insert_index:
  "k \<notin> set (map fst ps) \<Longrightarrow> map_of (insert_index k n v ps) = (map_of ps)(k \<mapsto> v)"
  by (induction ps) (auto split: option.splits simp: fun_eq_iff)

lemma distinct_insert_index:
  "k \<notin> set (map fst ps) \<Longrightarrow> distinct (map fst ps) \<Longrightarrow> distinct (map fst (insert_index k n v ps))"
  by (induction ps) (auto split: option.splits simp: set_insert_index)

lemma sorted_insert_index:
  assumes "sorted_wrt index_before (map fst ps)" "index_key k = Some n" "k \<notin> set (map fst ps)"
  shows "sorted_wrt index_before (map fst (insert_index k n v ps))"
  using assms
proof (induction ps)
  case Nil
  then show ?case by simp
next
  case (Cons p ps)
  obtain k' v' where p: "p = (k', v')" by (cases p)
  show ?case
  proof (cases "index_key k'")
    case None
    with Cons.prems p have "index_before k k'" by (simp add: index_before_def)
    with Cons.prems p show ?thesis by (auto simp: None intro: index_before_trans)
  next
    case (Some m)
    show ?thesis
    proof (cases "m < n")
      case True
      with Some Cons.prems have "index_before k' k" by (simp add: index_before_def)
      with True Some Cons show ?thesis by (auto simp: p set_insert_index)
    next
      case False
      from Cons.prems p Some have "m \<noteq> n" using index_key_inj by fastforce
      with False Some Cons.prems have "index_before k k'" by (simp add: index_before_def)
      with Cons.prems p False Some show ?thesis by (auto intro: index_before_trans)
    qed
  qed
qed

lemma wf_obj_put: "wf_props ps \<Longrightarrow> wf_props (obj_put k v ps)"
proof (cases "k \<in> set (map fst ps)")
  case True
  moreover assume "wf_props ps"
  ultimately show ?thesis by (simp add: obj_put_def wf_props_def update_keys_in)
next
  case False
  assume wf: "wf_props ps"
  show ?thesis
  proof (cases "index_key k")
    case None
    then have "\<forall>x \<in> set (map fst ps). index_before x k"
      by (auto simp: index_before_def split: option.splits)
    with False None wf show ?thesis by (simp add: obj_put_def wf_props_def sorted_wrt_append)
  next
    case (Some n)
    with False wf show ?thesis
      by (simp add: obj_put_def wf_props_def sorted_insert_index distinct_insert_index)
  qed
qed

lemma map_of_obj_put: "map_of (obj_put k v ps) = (map_of ps)(k \<mapsto> v)"
proof (cases "k \<in> set (map fst ps)")
  case True
  then show ?thesis by (simp add: obj_put_def update_conv')
next
  case False
  then have "map_of (ps @ [(k, v)]) = (map_of ps)(k \<mapsto> v)"
    by (auto simp: fun_eq_iff map_add_def map_of_keys_None split: option.splits)
  with False show ?thesis
    by (auto simp: obj_put_def map_of_insert_index split: option.splits)
qed

lemma wf_put_all: "wf_props ps \<Longrightarrow> wf_props (put_all ps qs)"
  by (induction ps qs rule: put_all.induct) (simp_all add: wf_obj_put)

lemma map_of_put_all: "map_of (put_all ps qs) = map_of ps ++ map_of (rev qs)"
  by (induction ps qs rule: put_all.induct) (simp_all add: map_of_obj_put fun_eq_iff map_add_def split: option.splits)

lemma wf_eval_defs: "wf_props ps \<Longrightarrow> wf_props (eval_defs ps ds)"
  by (induction ps ds rule: eval_defs.induct) (simp_all add: wf_obj_put wf_put_all)

lemma obj_put_update: "index_key k = None \<Longrightarrow> obj_put k v ps = AList.update k v ps"
  by (simp add: obj_put_def update_keys_notin)


text \<open>When no key of the spread source is an array index, copying its properties is the fold of association-list updates of HOL-Library (last write wins, an existing key keeps its position, a new key goes last).\<close>

lemma put_all_updates:
  "\<forall>k \<in> set (map fst qs). index_key k = None \<Longrightarrow> put_all ps qs = fold (\<lambda>(k, v). AList.update k v) qs ps"
  by (induction ps qs rule: put_all.induct) (simp_all add: obj_put_update)

lemma insert_index_end:
  "\<forall>x \<in> set (map fst xs). index_before x k \<Longrightarrow> index_key k = Some n \<Longrightarrow>
   insert_index k n v xs = xs @ [(k, v)]"
  by (induction xs) (auto simp: index_before_def split: option.splits)

lemma put_all_wf_suffix: "wf_props (xs @ ys) \<Longrightarrow> put_all xs ys = xs @ ys"
proof (induction ys arbitrary: xs)
  case Nil
  then show ?case by simp
next
  case (Cons p ys)
  obtain k v where p: "p = (k, v)" by (cases p)
  from Cons.prems p have notin: "k \<notin> set (map fst xs)" and before: "\<forall>x \<in> set (map fst xs). index_before x k"
    by (auto simp: wf_props_def sorted_wrt_append)
  then have "obj_put k v xs = xs @ [(k, v)]"
    by (auto simp: obj_put_def insert_index_end split: option.splits)
  with Cons.IH [of "xs @ [(k, v)]"] Cons.prems p show ?case by simp
qed


text \<open>C13: spreading a well-formed object into an empty literal, \<open>{...A}\<close>, gives \<open>A\<close> back unchanged: merging with no overrides is the identity.\<close>

lemma spread_identity: "wf_props ps \<Longrightarrow> obj_lit [Spread (JObj ps)] = JObj ps"
  using put_all_wf_suffix [of "[]" ps] by (simp add: obj_lit_def)

lemma put_all_present:
  "distinct (map fst ps) \<Longrightarrow> set qs \<subseteq> set ps \<Longrightarrow> put_all ps qs = ps"
proof (induction qs)
  case Nil
  then show ?case by simp
next
  case (Cons q qs)
  obtain k v where q: "q = (k, v)" by (cases q)
  with Cons.prems have m: "map_of ps k = Some v" by (auto intro: map_of_is_SomeI)
  from Cons.prems q have "k \<in> set (map fst ps)" by force
  with m have "obj_put k v ps = ps" by (simp add: obj_put_def update_triv)
  with Cons q show ?case by simp
qed


text \<open>C14: spreading the same well-formed object twice, \<open>{...A, ...A}\<close>, gives \<open>A\<close>: the merge is idempotent.\<close>

lemma spread_idempotent: "wf_props ps \<Longrightarrow> obj_lit [Spread (JObj ps), Spread (JObj ps)] = JObj ps"
  using put_all_wf_suffix [of "[]" ps] put_all_present [of ps ps] by (simp add: obj_lit_def wf_props_def)

text \<open>Evaluating literals: a key that starts with a non-digit is not an array index,
  and a literal of distinct such keys is the list of its fields.\<close>

lemma index_key_Cons_nondigit [js_eval]: "\<not> is_digit c \<Longrightarrow> index_key (c # cs) = None"
  by (simp add: index_key_def str_to_nat_def)

lemma fields_lit:
  assumes "distinct (map fst kvs)" "\<forall>k \<in> set (map fst kvs). index_key k = None"
  shows "obj_lit (map (\<lambda>(k, v). Field k v) kvs) = JObj kvs"
proof -
  have "distinct (map fst (ps @ kvs)) \<Longrightarrow> eval_defs ps (map (\<lambda>(k, v). Field k v) kvs) = ps @ kvs" for ps
    using assms(2) by (induction kvs arbitrary: ps) (auto simp: obj_put_def)
  with assms(1) show ?thesis by (simp add: obj_lit_def)
qed

lemma eval_defs_append: "eval_defs ps (ds @ es) = eval_defs (eval_defs ps ds) es"
  by (induction ps ds rule: eval_defs.induct) simp_all


text \<open>Reading a property of an object literal whose last definition sets it gives that value: the last write wins.\<close>

lemma get_obj_lit_last: "get (obj_lit (ds @ [Field k v])) k = Some v"
  by (simp add: obj_lit_def eval_defs_append map_of_obj_put)


text \<open>Every object literal evaluates to a property list with distinct keys in JavaScript enumeration order (array indices first, ascending).\<close>

lemma wf_obj_lit: "obj_lit ds = JObj ps \<Longrightarrow> wf_props ps"
  using wf_eval_defs [of "[]" ds] by (simp add: obj_lit_def wf_props_def)

lemma index_key_nat_to_str: "n < 4294967295 \<Longrightarrow> index_key (nat_to_str n) = Some n"
  by (simp add: index_key_def)

lemma index_key_digit [js_eval]: "index_key [c] = (if is_digit c then Some (of_char c - 48) else None)"
proof (cases "is_digit c")
  case True
  then have lt: "of_char c - 48 < (10::nat)" and ge: "(48::nat) \<le> of_char c" by (auto simp: is_digit_def)
  then have "nat_to_str (of_char c - 48) = [c]"
    by (subst nat_to_str.simps) (simp add: digit_char_def)
  with True lt show ?thesis by (simp add: index_key_def str_to_nat_def)
next
  case False
  then show ?thesis by (simp add: index_key_def str_to_nat_def)
qed

lemmas obj_lit_eval = obj_lit_def obj_put_def index_key_Cons_nondigit index_key_digit is_digit_def

declare obj_lit_eval [js_eval]

theorem spread_identity_witness:
  "wf_props [(''a'', JNull), (''b'', JBool True)] \<and>
   obj_lit [Spread (JObj [(''a'', JNull), (''b'', JBool True)])] = JObj [(''a'', JNull), (''b'', JBool True)]"
proof -
  have h: "wf_props [(''a'', JNull), (''b'', JBool True)]"
    by (simp add: wf_props_def index_before_def index_key_Cons_nondigit is_digit_def)
  show ?thesis using h spread_identity [OF h] by simp
qed

theorem spread_idempotent_witness:
  "wf_props [(''a'', JNull)] \<and> obj_lit [Spread (JObj [(''a'', JNull)]), Spread (JObj [(''a'', JNull)])] = JObj [(''a'', JNull)]"
proof -
  have h: "wf_props [(''a'', JNull)]" by (simp add: wf_props_def)
  show ?thesis using h spread_idempotent [OF h] by simp
qed

end
