(* ===== verification/Combinators.thy ===== *)
theory Combinators
  imports JsValue
begin

text \<open>
  The three helper functions of \<open>karabiner.js\<close> that build lists of
  manipulators (\<open>fromTo\<close>, \<open>spaceFN\<close>, \<open>swap\<close>), each returning a JavaScript
  array, modelled as the HOL list of its elements; an array literal of spreads
  \<open>[...xs, ...ys]\<close> of such arrays is \<open>xs @ ys\<close>. With them, the meaning the
  remapping runtime gives to a list of simple modifications (the first entry whose
  \<open>from.key_code\<close> matches is applied), so that \<open>swap\<close> can be shown to swap.
\<close>

definition fromTo :: "key_code \<Rightarrow> key_code \<Rightarrow> jval list" where
  "fromTo from_key to_key =
     [obj_lit
       [Field ''from'' (obj_lit [Field ''key_code'' (JStr from_key)]),
        Field ''to'' (obj_lit [Field ''key_code'' (JStr to_key)])]]"

definition spaceFN :: "key_code \<Rightarrow> key_code \<Rightarrow> jval list" where
  "spaceFN from_key to_key =
     [obj_lit
       [Field ''from'' (obj_lit
          [Field ''modifiers'' (obj_lit [Field ''optional'' (JArr [JStr ''any''])]),
           Field ''simultaneous''
             (JArr [obj_lit [Field ''key_code'' (JStr ''spacebar'')],
                    obj_lit [Field ''key_code'' (JStr from_key)]]),
           Field ''simultaneous_options'' (obj_lit
             [Field ''key_down_order'' (JStr ''strict''),
              Field ''key_up_order'' (JStr ''strict_inverse''),
              Field ''to_after_key_up''
                (JArr [obj_lit [Field ''set_variable''
                         (obj_lit [Field ''name'' (JStr ''SpaceFN''), Field ''value'' (JNum 0)])]])])]),
        Field ''parameters'' (obj_lit
          [Field ''basic.simultaneous_threshold_milliseconds'' (JNum 500)]),
        Field ''to''
          (JArr [obj_lit [Field ''set_variable''
                   (obj_lit [Field ''name'' (JStr ''SpaceFN''), Field ''value'' (JNum 1)])],
                 obj_lit [Field ''key_code'' (JStr to_key)]]),
        Field ''type'' (JStr ''basic'')],
      obj_lit
       [Field ''conditions''
          (JArr [obj_lit [Field ''name'' (JStr ''SpaceFN''), Field ''type'' (JStr ''variable_if''),
                          Field ''value'' (JNum 1)]]),
        Field ''from'' (obj_lit [Field ''key_code'' (JStr from_key),
                                Field ''modifiers'' (obj_lit [Field ''optional'' (JArr [JStr ''any''])])]),
        Field ''to'' (JArr [obj_lit [Field ''key_code'' (JStr to_key)]]),
        Field ''type'' (JStr ''basic'')]]"

definition swap :: "key_code \<Rightarrow> key_code \<Rightarrow> jval list" where
  "swap a b = fromTo a b @ fromTo b a"

text \<open>The key code a simple modification reads and the one it writes.\<close>

definition key_at :: "jval \<Rightarrow> string \<Rightarrow> key_code option" where
  "key_at m field = (case get_path m [field, ''key_code''] of Some (JStr k) \<Rightarrow> Some k | _ \<Rightarrow> None)"

text \<open>How the runtime applies a list of simple modifications to a key: the first entry
  whose \<open>from\<close> key matches gives the result; no match leaves the key alone.\<close>

fun simple_remap :: "jval list \<Rightarrow> key_code \<Rightarrow> key_code" where
  "simple_remap [] k = k"
| "simple_remap (m # ms) k =
     (case (key_at m ''from'', key_at m ''to'') of
        (Some f, Some t) \<Rightarrow> if f = k then t else simple_remap ms k
      | _ \<Rightarrow> simple_remap ms k)"

lemma fromTo_eval [js_eval]:
  "fromTo a b = [JObj [(''from'', JObj [(''key_code'', JStr a)]), (''to'', JObj [(''key_code'', JStr b)])]]"
  by (simp add: fromTo_def js_eval)

lemma spaceFN_eval [js_eval]:
  "spaceFN x y =
    [JObj [(''from'', JObj
             [(''modifiers'', JObj [(''optional'', JArr [JStr ''any''])]),
              (''simultaneous'', JArr [JObj [(''key_code'', JStr ''spacebar'')], JObj [(''key_code'', JStr x)]]),
              (''simultaneous_options'', JObj
                 [(''key_down_order'', JStr ''strict''), (''key_up_order'', JStr ''strict_inverse''),
                  (''to_after_key_up'', JArr [JObj [(''set_variable'', JObj [(''name'', JStr ''SpaceFN''), (''value'', JNum 0)])]])])]),
           (''parameters'', JObj [(''basic.simultaneous_threshold_milliseconds'', JNum 500)]),
           (''to'', JArr [JObj [(''set_variable'', JObj [(''name'', JStr ''SpaceFN''), (''value'', JNum 1)])],
                         JObj [(''key_code'', JStr y)]]),
           (''type'', JStr ''basic'')],
     JObj [(''conditions'', JArr [JObj [(''name'', JStr ''SpaceFN''), (''type'', JStr ''variable_if''), (''value'', JNum 1)]]),
           (''from'', JObj [(''key_code'', JStr x), (''modifiers'', JObj [(''optional'', JArr [JStr ''any''])])]),
           (''to'', JArr [JObj [(''key_code'', JStr y)]]),
           (''type'', JStr ''basic'')]]"
  by (simp add: spaceFN_def js_eval)

text \<open>How a list that starts with \<open>fromTo\<close> or \<open>swap\<close> entries remaps a key.\<close>

lemma simple_remap_fromTo: "simple_remap (fromTo a b @ ms) k = (if k = a then b else simple_remap ms k)"
  by (simp add: fromTo_eval key_at_def)

lemma simple_remap_fromTo_last: "simple_remap (fromTo a b) k = (if k = a then b else k)"
  by (simp add: fromTo_eval key_at_def)

lemma simple_remap_swap:
  "simple_remap (swap a b @ ms) k = (if k = a then b else if k = b then a else simple_remap ms k)"
  by (simp add: swap_def simple_remap_fromTo)

lemmas simple_remap_lists = simple_remap_fromTo simple_remap_fromTo_last simple_remap_swap

text \<open>C10: \<open>swap a b\<close> exchanges \<open>a\<close> and \<open>b\<close> and leaves every other key alone.\<close>

theorem swap_remap:
  "simple_remap (swap a b) a = b \<and> simple_remap (swap a b) b = a \<and>
   (k \<noteq> a \<longrightarrow> k \<noteq> b \<longrightarrow> simple_remap (swap a b) k = k)"
  by (simp add: swap_def fromTo_eval key_at_def)

theorem swap_remap_witness:
  "simple_remap (swap ''left_command'' ''left_option'') ''left_command'' = ''left_option'' \<and>
   simple_remap (swap ''left_command'' ''left_option'') ''left_option'' = ''left_command'' \<and>
   simple_remap (swap ''left_command'' ''left_option'') ''tab'' = ''tab''"
  using swap_remap [of "''left_command''" "''left_option''" "''tab''"] by simp

text \<open>C9: \<open>fromTo a b\<close> is exactly one entry, mapping \<open>a\<close> to \<open>b\<close> with no
  modifier constraint.\<close>

theorem fromTo_single_entry:
  "\<exists>m. fromTo a b = [m] \<and> key_at m ''from'' = Some a \<and> key_at m ''to'' = Some b \<and>
       get_path m [''from'', ''modifiers''] = None"
  by (simp add: fromTo_eval key_at_def)

text \<open>C11: \<open>spaceFN x y\<close> is two entries: a chord of the space bar and \<open>x\<close>, pressed in
  strict order and released in the inverse order, then an entry for \<open>x\<close> alone guarded
  by the variable \<open>SpaceFN = 1\<close>.\<close>

theorem spaceFN_entries:
  "\<exists>e1 e2. spaceFN x y = [e1, e2] \<and>
     get_path e1 [''from'', ''simultaneous''] =
       Some (JArr [JObj [(''key_code'', JStr ''spacebar'')], JObj [(''key_code'', JStr x)]]) \<and>
     get_path e1 [''from'', ''simultaneous_options'', ''key_down_order''] = Some (JStr ''strict'') \<and>
     get_path e1 [''from'', ''simultaneous_options'', ''key_up_order''] = Some (JStr ''strict_inverse'') \<and>
     get_path e2 [''conditions''] =
       Some (JArr [JObj [(''name'', JStr ''SpaceFN''), (''type'', JStr ''variable_if''), (''value'', JNum 1)]]) \<and>
     key_at e2 ''from'' = Some x \<and> key_at e2 ''to'' = None"
  by (simp add: spaceFN_eval key_at_def js_eval)

text \<open>C12: the chord entry first sets \<open>SpaceFN\<close> to 1 and then sends \<open>y\<close>, and resets
  the variable to 0 when the chord is released; the guarded entry sends \<open>y\<close> only.\<close>

theorem spaceFN_toggle:
  "\<exists>e1 e2. spaceFN x y = [e1, e2] \<and>
     get_path e1 [''to''] =
       Some (JArr [JObj [(''set_variable'', JObj [(''name'', JStr ''SpaceFN''), (''value'', JNum 1)])],
                   JObj [(''key_code'', JStr y)]]) \<and>
     get_path e1 [''from'', ''simultaneous_options'', ''to_after_key_up''] =
       Some (JArr [JObj [(''set_variable'', JObj [(''name'', JStr ''SpaceFN''), (''value'', JNum 0)])]]) \<and>
     get_path e2 [''to''] = Some (JArr [JObj [(''key_code'', JStr y)]])"
  by (simp add: spaceFN_eval)

end
