(* ===== verification/Devices.thy ===== *)
theory Devices
  imports Combinators
begin

text \<open>
  The device descriptors of \<open>karabiner.js\<close> (lines 92--138): the defaults every
  device starts from, the identifier defaults, and the three devices built by spreading
  them and overriding fields: the Apple internal keyboard, the Realforce keyboard (whose
  command and option keys are swapped) and the YubiKey (ignored). A typed view of a
  descriptor (the record \<open>device\<close>) states what the JSON object means to the runtime.
\<close>

definition DEVICE_DEFAULTS :: jval where
  "DEVICE_DEFAULTS =
     obj_lit
      [Field ''disable_built_in_keyboard_if_exists'' (JBool False),
       Field ''fn_function_keys'' (JArr []),
       Field ''ignore'' (JBool False),
       Field ''manipulate_caps_lock_led'' (JBool True),
       Field ''simple_modifications'' (JArr [])]"

definition IDENTIFIER_DEFAULTS :: jval where
  "IDENTIFIER_DEFAULTS =
     obj_lit [Field ''is_keyboard'' (JBool True), Field ''is_pointing_device'' (JBool False)]"

definition APPLE_INTERNAL :: jval where
  "APPLE_INTERNAL =
     obj_lit
      [Spread DEVICE_DEFAULTS,
       Field ''identifiers'' (obj_lit
         [Spread IDENTIFIER_DEFAULTS,
          Field ''product_id'' (JNum 628),
          Field ''vendor_id'' (JNum 1452)])]"

definition REALFORCE :: jval where
  "REALFORCE =
     obj_lit
      [Spread DEVICE_DEFAULTS,
       Field ''identifiers'' (obj_lit
         [Spread IDENTIFIER_DEFAULTS,
          Field ''product_id'' (JNum 273),
          Field ''vendor_id'' (JNum 2131)]),
       Field ''simple_modifications'' (JArr
         (swap ''left_command'' ''left_option'' @
          swap ''right_command'' ''right_option'' @
          fromTo ''application'' ''fn'' @
          fromTo ''pause'' ''power''))]"

definition YUBIKEY :: jval where
  "YUBIKEY =
     obj_lit
      [Spread DEVICE_DEFAULTS,
       Field ''identifiers'' (obj_lit
         [Spread IDENTIFIER_DEFAULTS,
          Field ''product_id'' (JNum 1031),
          Field ''vendor_id'' (JNum 4176)]),
       Field ''ignore'' (JBool True),
       Field ''manipulate_caps_lock_led'' (JBool False)]"

text \<open>The typed view of a device descriptor (spec, DeviceDescriptor).\<close>

record device =
  vendor_id :: int
  product_id :: int
  is_keyboard :: bool
  is_pointing_device :: bool
  ignore :: bool
  manipulate_caps_lock_led :: bool
  disable_built_in_keyboard_if_exists :: bool
  device_simple_mods :: "jval list"

fun as_int :: "jval option \<Rightarrow> int option" where
  "as_int (Some (JNum n)) = Some n"
| "as_int _ = None"

fun as_bool :: "jval option \<Rightarrow> bool option" where
  "as_bool (Some (JBool b)) = Some b"
| "as_bool _ = None"

fun as_arr :: "jval option \<Rightarrow> jval list option" where
  "as_arr (Some (JArr xs)) = Some xs"
| "as_arr _ = None"

definition decode_device :: "jval \<Rightarrow> device option" where
  "decode_device d =
     (case (as_int (get_path d [''identifiers'', ''vendor_id'']),
            as_int (get_path d [''identifiers'', ''product_id'']),
            as_bool (get_path d [''identifiers'', ''is_keyboard'']),
            as_bool (get_path d [''identifiers'', ''is_pointing_device'']),
            as_bool (get d ''ignore''), as_bool (get d ''manipulate_caps_lock_led''),
            as_bool (get d ''disable_built_in_keyboard_if_exists''),
            as_arr (get d ''simple_modifications'')) of
        (Some v, Some p, Some kb, Some pt, Some ig, Some led, Some dis, Some sm) \<Rightarrow>
          Some \<lparr>vendor_id = v, product_id = p, is_keyboard = kb, is_pointing_device = pt,
                ignore = ig, manipulate_caps_lock_led = led,
                disable_built_in_keyboard_if_exists = dis, device_simple_mods = sm\<rparr>
      | _ \<Rightarrow> None)"

lemma DEVICE_DEFAULTS_eval [js_eval]:
  "DEVICE_DEFAULTS =
     JObj [(''disable_built_in_keyboard_if_exists'', JBool False), (''fn_function_keys'', JArr []),
           (''ignore'', JBool False), (''manipulate_caps_lock_led'', JBool True),
           (''simple_modifications'', JArr [])]"
  by (simp add: DEVICE_DEFAULTS_def js_eval)

lemma IDENTIFIER_DEFAULTS_eval [js_eval]:
  "IDENTIFIER_DEFAULTS = JObj [(''is_keyboard'', JBool True), (''is_pointing_device'', JBool False)]"
  by (simp add: IDENTIFIER_DEFAULTS_def js_eval)

lemma identifiers_eval:
  "obj_lit [Spread IDENTIFIER_DEFAULTS, Field ''product_id'' (JNum p), Field ''vendor_id'' (JNum v)] =
     JObj [(''is_keyboard'', JBool True), (''is_pointing_device'', JBool False),
           (''product_id'', JNum p), (''vendor_id'', JNum v)]"
  by (simp add: IDENTIFIER_DEFAULTS_eval js_eval)

lemma APPLE_INTERNAL_eval [js_eval]:
  "APPLE_INTERNAL =
     JObj [(''disable_built_in_keyboard_if_exists'', JBool False), (''fn_function_keys'', JArr []),
           (''ignore'', JBool False), (''manipulate_caps_lock_led'', JBool True),
           (''simple_modifications'', JArr []),
           (''identifiers'', JObj [(''is_keyboard'', JBool True), (''is_pointing_device'', JBool False),
                                   (''product_id'', JNum 628), (''vendor_id'', JNum 1452)])]"
  by (simp add: APPLE_INTERNAL_def identifiers_eval DEVICE_DEFAULTS_eval js_eval)

lemma YUBIKEY_eval [js_eval]:
  "YUBIKEY =
     JObj [(''disable_built_in_keyboard_if_exists'', JBool False), (''fn_function_keys'', JArr []),
           (''ignore'', JBool True), (''manipulate_caps_lock_led'', JBool False),
           (''simple_modifications'', JArr []),
           (''identifiers'', JObj [(''is_keyboard'', JBool True), (''is_pointing_device'', JBool False),
                                   (''product_id'', JNum 1031), (''vendor_id'', JNum 4176)])]"
  by (simp add: YUBIKEY_def identifiers_eval DEVICE_DEFAULTS_eval js_eval)

lemma REALFORCE_eval [js_eval]:
  "REALFORCE =
     JObj [(''disable_built_in_keyboard_if_exists'', JBool False), (''fn_function_keys'', JArr []),
           (''ignore'', JBool False), (''manipulate_caps_lock_led'', JBool True),
           (''simple_modifications'', JArr
              (swap ''left_command'' ''left_option'' @ swap ''right_command'' ''right_option'' @
               fromTo ''application'' ''fn'' @ fromTo ''pause'' ''power'')),
           (''identifiers'', JObj [(''is_keyboard'', JBool True), (''is_pointing_device'', JBool False),
                                   (''product_id'', JNum 273), (''vendor_id'', JNum 2131)])]"
  by (simp add: REALFORCE_def identifiers_eval DEVICE_DEFAULTS_eval js_eval)

text \<open>C15: each device overrides only the fields its literal names; every other field is the
  one of \<open>DEVICE_DEFAULTS\<close>.\<close>

theorem device_override_frame:
  "(f \<noteq> ''identifiers'' \<longrightarrow> get APPLE_INTERNAL f = get DEVICE_DEFAULTS f) \<and>
   (f \<notin> {''identifiers'', ''simple_modifications''} \<longrightarrow> get REALFORCE f = get DEVICE_DEFAULTS f) \<and>
   (f \<notin> {''identifiers'', ''ignore'', ''manipulate_caps_lock_led''} \<longrightarrow>
      get YUBIKEY f = get DEVICE_DEFAULTS f)"
  by (simp add: APPLE_INTERNAL_eval REALFORCE_eval YUBIKEY_eval DEVICE_DEFAULTS_eval)

theorem device_override_frame_witness:
  "get REALFORCE ''fn_function_keys'' = get DEVICE_DEFAULTS ''fn_function_keys'' \<and>
   get YUBIKEY ''fn_function_keys'' = get DEVICE_DEFAULTS ''fn_function_keys'' \<and>
   get APPLE_INTERNAL ''fn_function_keys'' = get DEVICE_DEFAULTS ''fn_function_keys''"
  using device_override_frame [of "''fn_function_keys''"] by simp

text \<open>C16: the three descriptors have the same keys in the same order, those of
  \<open>DEVICE_DEFAULTS\<close> followed by \<open>identifiers\<close>: an override keeps the position of
  the field it replaces.\<close>

theorem device_keys_uniform:
  "obj_keys APPLE_INTERNAL = obj_keys DEVICE_DEFAULTS @ [''identifiers''] \<and>
   obj_keys REALFORCE = obj_keys DEVICE_DEFAULTS @ [''identifiers''] \<and>
   obj_keys YUBIKEY = obj_keys DEVICE_DEFAULTS @ [''identifiers'']"
  by (simp add: APPLE_INTERNAL_eval REALFORCE_eval YUBIKEY_eval DEVICE_DEFAULTS_eval)

text \<open>C17: decoded, the three descriptors are the three devices the configuration names,
  with pairwise distinct vendor and product identifiers; only the YubiKey is ignored.\<close>

theorem devices_decode:
  "decode_device APPLE_INTERNAL =
     Some \<lparr>vendor_id = 1452, product_id = 628, is_keyboard = True, is_pointing_device = False,
           ignore = False, manipulate_caps_lock_led = True,
           disable_built_in_keyboard_if_exists = False, device_simple_mods = []\<rparr> \<and>
   decode_device YUBIKEY =
     Some \<lparr>vendor_id = 4176, product_id = 1031, is_keyboard = True, is_pointing_device = False,
           ignore = True, manipulate_caps_lock_led = False,
           disable_built_in_keyboard_if_exists = False, device_simple_mods = []\<rparr> \<and>
   (\<exists>r. decode_device REALFORCE = Some r \<and> vendor_id r = 2131 \<and> product_id r = 273 \<and>
        \<not> ignore r \<and> length (device_simple_mods r) = 6) \<and>
   distinct [(1452::int, 628::int), (2131, 273), (4176, 1031)]"
  by (simp add: decode_device_def APPLE_INTERNAL_eval REALFORCE_eval YUBIKEY_eval swap_def fromTo_eval js_eval)

text \<open>C18: the Realforce keyboard swaps left command and option, swaps right command and
  option, sends \<open>fn\<close> for the application key and \<open>power\<close> for pause, and leaves
  every other key alone.\<close>

theorem realforce_remap:
  "\<exists>ms. as_arr (get REALFORCE ''simple_modifications'') = Some ms \<and>
     (\<forall>k. simple_remap ms k =
       (if k = ''left_command'' then ''left_option'' else if k = ''left_option'' then ''left_command''
        else if k = ''right_command'' then ''right_option'' else if k = ''right_option'' then ''right_command''
        else if k = ''application'' then ''fn'' else if k = ''pause'' then ''power'' else k))"
  by (simp only: REALFORCE_eval get.simps map_of.simps as_arr.simps)
     (simp del: simple_remap.simps add: simple_remap_lists)

end
