(* ===== verification/Profiles.thy ===== *)
theory Profiles
  imports Devices
begin

text \<open>
  The profiles of \<open>karabiner.js\<close> (lines 140--348): the complex-modification
  parameters, the \<open>Vanilla\<close> profile (YubiKey ignored, the Apple function-key row)
  and the \<open>Default\<close> profile, built by spreading \<open>VANILLA_PROFILE\<close> and
  overriding its parameters, rules, devices, name, selection and simple modifications.
  The five rules of the \<open>Default\<close> profile are written inline in the source; here
  each is a definition of its own, in the source's order.
\<close>

definition PARAMETER_DEFAULTS :: jval where
  "PARAMETER_DEFAULTS =
     obj_lit
      [Field ''basic.simultaneous_threshold_milliseconds'' (JNum 50),
       Field ''basic.to_delayed_action_delay_milliseconds'' (JNum 500),
       Field ''basic.to_if_alone_timeout_milliseconds'' (JNum 1000),
       Field ''basic.to_if_held_down_threshold_milliseconds'' (JNum 500)]"

definition VANILLA_PROFILE :: jval where
  "VANILLA_PROFILE =
     obj_lit
      [Field ''complex_modifications'' (obj_lit
         [Field ''parameters'' PARAMETER_DEFAULTS,
          Field ''rules'' (JArr [])]),
       Field ''devices'' (JArr [YUBIKEY]),
       Field ''fn_function_keys'' (JArr
         (fromTo ''f1'' ''display_brightness_decrement'' @
          fromTo ''f2'' ''display_brightness_increment'' @
          fromTo ''f3'' ''mission_control'' @
          fromTo ''f4'' ''launchpad'' @
          fromTo ''f5'' ''illumination_decrement'' @
          fromTo ''f6'' ''illumination_increment'' @
          fromTo ''f7'' ''rewind'' @
          fromTo ''f8'' ''play_or_pause'' @
          fromTo ''f9'' ''fastforward'' @
          fromTo ''f10'' ''mute'' @
          fromTo ''f11'' ''volume_decrement'' @
          fromTo ''f12'' ''volume_increment'')),
       Field ''name'' (JStr ''Vanilla''),
       Field ''selected'' (JBool False),
       Field ''simple_modifications'' (JArr []),
       Field ''virtual_hid_keyboard'' (obj_lit
         [Field ''caps_lock_delay_milliseconds'' (JNum 0),
          Field ''keyboard_type'' (JStr ''ansi'')])]"

definition spacefn_layer_rule :: jval where
  "spacefn_layer_rule =
     obj_lit
      [Field ''description'' (JStr ''SpaceFN layer''),
       Field ''manipulators'' (JArr
         (spaceFN ''b'' ''spacebar'' @
          spaceFN ''h'' ''left_arrow'' @
          spaceFN ''j'' ''down_arrow'' @
          spaceFN ''k'' ''up_arrow'' @
          spaceFN ''l'' ''right_arrow'' @
          spaceFN ''1'' ''display_brightness_decrement'' @
          spaceFN ''2'' ''display_brightness_increment'' @
          spaceFN ''3'' ''mission_control'' @
          spaceFN ''4'' ''launchpad'' @
          spaceFN ''5'' ''illumination_decrement'' @
          spaceFN ''6'' ''illumination_increment'' @
          spaceFN ''7'' ''rewind'' @
          spaceFN ''8'' ''play_or_pause'' @
          spaceFN ''9'' ''fast_forward'' @
          spaceFN ''0'' ''mute'' @
          spaceFN ''-'' ''volume_decrement'' @
          spaceFN ''='' ''volume_increment'' @
          spaceFN ''d'' ''PageDown'' @
          spaceFN ''u'' ''PageUp''))]"

definition caps_escape_rule :: jval where
  "caps_escape_rule =
     obj_lit
      [Field ''description'' (JStr ''Post Esc if Caps is tapped, Control if held''),
       Field ''manipulators'' (JArr
         [obj_lit
           [Field ''from'' (obj_lit
              [Field ''key_code'' (JStr ''left_control''),
               Field ''modifiers'' (obj_lit [Field ''optional'' (JArr [JStr ''any''])])]),
            Field ''to'' (JArr [obj_lit [Field ''key_code'' (JStr ''left_control''), Field ''lazy'' (JBool True)]]),
            Field ''to_if_alone'' (JArr [obj_lit [Field ''key_code'' (JStr ''escape'')]]),
            Field ''type'' (JStr ''basic'')]])]"

definition return_rule :: jval where
  "return_rule =
     obj_lit
      [Field ''description''
         (JStr ''Change Return to Control when used as modifier, Return when used alone''),
       Field ''manipulators'' (JArr
         [obj_lit
           [Field ''from'' (obj_lit
              [Field ''key_code'' (JStr ''return_or_enter''),
               Field ''modifiers'' (obj_lit [Field ''optional'' (JArr [JStr ''any''])])]),
            Field ''to'' (JArr [obj_lit [Field ''key_code'' (JStr ''right_command''), Field ''lazy'' (JBool True)]]),
            Field ''to_if_alone'' (JArr [obj_lit [Field ''key_code'' (JStr ''return_or_enter'')]]),
            Field ''to_if_held_down'' (JArr [obj_lit [Field ''key_code'' (JStr ''return_or_enter'')]]),
            Field ''type'' (JStr ''basic'')]])]"

definition tab_rule :: jval where
  "tab_rule =
     obj_lit
      [Field ''description'' (JStr ''Change Tab to Option when used as modifier, Tab when used alone''),
       Field ''manipulators'' (JArr
         [obj_lit
           [Field ''from'' (obj_lit
              [Field ''key_code'' (JStr ''tab''),
               Field ''modifiers'' (obj_lit [Field ''optional'' (JArr [JStr ''any''])])]),
            Field ''to'' (JArr [obj_lit [Field ''key_code'' (JStr ''left_option''), Field ''lazy'' (JBool True)]]),
            Field ''to_if_alone'' (JArr [obj_lit [Field ''key_code'' (JStr ''tab'')]]),
            Field ''to_if_held_down'' (JArr [obj_lit [Field ''key_code'' (JStr ''left_option'')]]),
            Field ''type'' (JStr ''basic'')]])]"

definition shift_caps_rule :: jval where
  "shift_caps_rule =
     obj_lit
      [Field ''description'' (JStr ''Left and Right Shift together toggle Caps Lock''),
       Field ''manipulators'' (JArr
         [obj_lit
           [Field ''from'' (obj_lit
              [Field ''modifiers'' (obj_lit [Field ''optional'' (JArr [JStr ''any''])]),
               Field ''simultaneous''
                 (JArr [obj_lit [Field ''key_code'' (JStr ''left_shift'')],
                        obj_lit [Field ''key_code'' (JStr ''right_shift'')]]),
               Field ''simultaneous_options'' (obj_lit
                 [Field ''key_down_order'' (JStr ''insensitive''),
                  Field ''key_up_order'' (JStr ''insensitive'')])]),
            Field ''to'' (JArr [obj_lit [Field ''key_code'' (JStr ''caps_lock'')]]),
            Field ''type'' (JStr ''basic'')]])]"

definition DEFAULT_PROFILE :: jval where
  "DEFAULT_PROFILE =
     obj_lit
      [Spread VANILLA_PROFILE,
       Field ''complex_modifications'' (obj_lit
         [Field ''parameters'' (obj_lit
            [Spread PARAMETER_DEFAULTS,
             Field ''basic.to_if_alone_timeout_milliseconds'' (JNum 500)]),
          Field ''rules'' (JArr
            [spacefn_layer_rule, caps_escape_rule, return_rule, tab_rule, shift_caps_rule])]),
       Field ''devices'' (JArr [YUBIKEY, REALFORCE, APPLE_INTERNAL]),
       Field ''name'' (JStr ''Default''),
       Field ''selected'' (JBool True),
       Field ''simple_modifications'' (JArr
         [obj_lit
           [Field ''from'' (obj_lit [Field ''key_code'' (JStr ''caps_lock'')]),
            Field ''to'' (obj_lit [Field ''key_code'' (JStr ''left_control'')])],
          obj_lit
           [Field ''from'' (obj_lit [Field ''key_code'' (JStr ''escape'')]),
            Field ''to'' (obj_lit [Field ''key_code'' (JStr ''caps_lock'')])]])]"

text \<open>Views of the generated data used to state what the profiles mean: every key code
  the value mentions (in document order), the key-code naming of the runtime (lower case,
  digits, underscore), the \<open>(trigger, target)\<close> bindings of the variable-guarded
  entries of a layer, and the \<open>(from, to)\<close> pairs of simple modifications.\<close>

fun key_codes :: "jval \<Rightarrow> string list"
and key_codes_list :: "jval list \<Rightarrow> string list"
and key_codes_props :: "props \<Rightarrow> string list" where
  "key_codes (JArr xs) = key_codes_list xs"
| "key_codes (JObj ps) = key_codes_props ps"
| "key_codes _ = []"
| "key_codes_list [] = []"
| "key_codes_list (x # xs) = key_codes x @ key_codes_list xs"
| "key_codes_props [] = []"
| "key_codes_props ((k, v) # ps) =
     (case (k = ''key_code'', v) of (True, JStr s) \<Rightarrow> [s] | _ \<Rightarrow> []) @ key_codes v @ key_codes_props ps"

definition karabiner_style :: "string \<Rightarrow> bool" where
  "karabiner_style s \<longleftrightarrow> s \<noteq> [] \<and>
     (\<forall>c \<in> set s. ((97::nat) \<le> of_char c \<and> of_char c \<le> (122::nat)) \<or> is_digit c \<or> c = CHR ''_'')"

definition guarded_binding :: "jval \<Rightarrow> (key_code \<times> key_code) option" where
  "guarded_binding m =
     (case (get m ''conditions'', key_at m ''from'', get_path m [''to'', ''0'', ''key_code'']) of
        (Some _, Some f, Some (JStr t)) \<Rightarrow> Some (f, t)
      | _ \<Rightarrow> None)"

definition layer_bindings :: "jval list \<Rightarrow> (key_code \<times> key_code) list" where
  "layer_bindings ms = List.map_filter guarded_binding ms"

definition simple_bindings :: "jval list \<Rightarrow> (key_code \<times> key_code) list" where
  "simple_bindings ms =
     List.map_filter (\<lambda>m. case (key_at m ''from'', key_at m ''to'') of
                             (Some f, Some t) \<Rightarrow> Some (f, t) | _ \<Rightarrow> None) ms"

abbreviation fn_keys_row :: "jval list" where
  "fn_keys_row \<equiv>
     fromTo ''f1'' ''display_brightness_decrement'' @ fromTo ''f2'' ''display_brightness_increment'' @
     fromTo ''f3'' ''mission_control'' @ fromTo ''f4'' ''launchpad'' @
     fromTo ''f5'' ''illumination_decrement'' @ fromTo ''f6'' ''illumination_increment'' @
     fromTo ''f7'' ''rewind'' @ fromTo ''f8'' ''play_or_pause'' @ fromTo ''f9'' ''fastforward'' @
     fromTo ''f10'' ''mute'' @ fromTo ''f11'' ''volume_decrement'' @ fromTo ''f12'' ''volume_increment''"

abbreviation spacefn_manipulators :: "jval list" where
  "spacefn_manipulators \<equiv>
     spaceFN ''b'' ''spacebar'' @ spaceFN ''h'' ''left_arrow'' @ spaceFN ''j'' ''down_arrow'' @
     spaceFN ''k'' ''up_arrow'' @ spaceFN ''l'' ''right_arrow'' @
     spaceFN ''1'' ''display_brightness_decrement'' @ spaceFN ''2'' ''display_brightness_increment'' @
     spaceFN ''3'' ''mission_control'' @ spaceFN ''4'' ''launchpad'' @
     spaceFN ''5'' ''illumination_decrement'' @ spaceFN ''6'' ''illumination_increment'' @
     spaceFN ''7'' ''rewind'' @ spaceFN ''8'' ''play_or_pause'' @ spaceFN ''9'' ''fast_forward'' @
     spaceFN ''0'' ''mute'' @ spaceFN ''-'' ''volume_decrement'' @ spaceFN ''='' ''volume_increment'' @
     spaceFN ''d'' ''PageDown'' @ spaceFN ''u'' ''PageUp''"

lemma PARAMETER_DEFAULTS_eval [js_eval]:
  "PARAMETER_DEFAULTS =
     JObj [(''basic.simultaneous_threshold_milliseconds'', JNum 50),
           (''basic.to_delayed_action_delay_milliseconds'', JNum 500),
           (''basic.to_if_alone_timeout_milliseconds'', JNum 1000),
           (''basic.to_if_held_down_threshold_milliseconds'', JNum 500)]"
  by (simp add: PARAMETER_DEFAULTS_def obj_lit_eval)

lemma VANILLA_PROFILE_eval [js_eval]:
  "VANILLA_PROFILE =
     JObj [(''complex_modifications'', JObj [(''parameters'', PARAMETER_DEFAULTS), (''rules'', JArr [])]),
           (''devices'', JArr [YUBIKEY]),
           (''fn_function_keys'', JArr fn_keys_row),
           (''name'', JStr ''Vanilla''), (''selected'', JBool False),
           (''simple_modifications'', JArr []),
           (''virtual_hid_keyboard'',
              JObj [(''caps_lock_delay_milliseconds'', JNum 0), (''keyboard_type'', JStr ''ansi'')])]"
  by (simp add: VANILLA_PROFILE_def obj_lit_eval)

lemma DEFAULT_PROFILE_eval [js_eval]:
  "DEFAULT_PROFILE =
     JObj [(''complex_modifications'', JObj
             [(''parameters'', JObj [(''basic.simultaneous_threshold_milliseconds'', JNum 50),
                                     (''basic.to_delayed_action_delay_milliseconds'', JNum 500),
                                     (''basic.to_if_alone_timeout_milliseconds'', JNum 500),
                                     (''basic.to_if_held_down_threshold_milliseconds'', JNum 500)]),
              (''rules'', JArr [spacefn_layer_rule, caps_escape_rule, return_rule, tab_rule, shift_caps_rule])]),
           (''devices'', JArr [YUBIKEY, REALFORCE, APPLE_INTERNAL]),
           (''fn_function_keys'', JArr fn_keys_row),
           (''name'', JStr ''Default''), (''selected'', JBool True),
           (''simple_modifications'', JArr
              [JObj [(''from'', JObj [(''key_code'', JStr ''caps_lock'')]),
                     (''to'', JObj [(''key_code'', JStr ''left_control'')])],
               JObj [(''from'', JObj [(''key_code'', JStr ''escape'')]),
                     (''to'', JObj [(''key_code'', JStr ''caps_lock'')])]]),
           (''virtual_hid_keyboard'',
              JObj [(''caps_lock_delay_milliseconds'', JNum 0), (''keyboard_type'', JStr ''ansi'')])]"
  by (simp add: DEFAULT_PROFILE_def VANILLA_PROFILE_eval PARAMETER_DEFAULTS_eval obj_lit_eval)

lemma spacefn_layer_rule_eval [js_eval]:
  "spacefn_layer_rule =
     JObj [(''description'', JStr ''SpaceFN layer''), (''manipulators'', JArr spacefn_manipulators)]"
  by (simp add: spacefn_layer_rule_def obj_lit_eval)

lemma layer_bindings_spaceFN: "layer_bindings (spaceFN x y @ ms) = (x, y) # layer_bindings ms"
  by (simp add: layer_bindings_def spaceFN_eval guarded_binding_def key_at_def js_eval map_filter_simps)

lemma layer_bindings_spaceFN_last: "layer_bindings (spaceFN x y) = [(x, y)]"
  using layer_bindings_spaceFN [of x y "[]"] by (simp add: layer_bindings_def map_filter_simps)

lemma simple_bindings_fromTo: "simple_bindings (fromTo x y @ ms) = (x, y) # simple_bindings ms"
  by (simp add: simple_bindings_def fromTo_eval key_at_def map_filter_simps)

lemma simple_bindings_fromTo_last: "simple_bindings (fromTo x y) = [(x, y)]"
  by (simp add: simple_bindings_def fromTo_eval key_at_def map_filter_simps)

lemma key_codes_list_append [simp]: "key_codes_list (xs @ ys) = key_codes_list xs @ key_codes_list ys"
  by (induction xs) simp_all

lemma key_codes_spaceFN: "key_codes_list (spaceFN x y) = [''spacebar'', x, y, x, y]"
  by (simp add: spaceFN_eval)

lemma key_codes_fromTo: "key_codes_list (fromTo x y) = [x, y]"
  by (simp add: fromTo_eval)

lemma swap_length: "length (swap a b) = 2" and fromTo_length: "length (fromTo a b) = 1"
  and spaceFN_length: "length (spaceFN a b) = 2"
  by (simp_all add: swap_def fromTo_def spaceFN_def)

text \<open>C19: the \<open>Default\<close> profile has the keys of the \<open>Vanilla\<close> profile in the same order: spreading \<open>VANILLA_PROFILE\<close> and overriding five of its fields moves none of them.\<close>

theorem default_profile_key_order: "obj_keys DEFAULT_PROFILE = obj_keys VANILLA_PROFILE"
  by (simp add: DEFAULT_PROFILE_eval VANILLA_PROFILE_eval)
text \<open>C20: every field the \<open>Default\<close> profile does not override (the function keys, the virtual keyboard) is that of the \<open>Vanilla\<close> profile.\<close>

theorem default_inherits_vanilla:
  "f \<notin> {''complex_modifications'', ''devices'', ''name'', ''selected'', ''simple_modifications''} \<Longrightarrow>
   get DEFAULT_PROFILE f = get VANILLA_PROFILE f"
  by (simp add: DEFAULT_PROFILE_eval VANILLA_PROFILE_eval)
theorem default_inherits_vanilla_witness:
  "get DEFAULT_PROFILE ''fn_function_keys'' = get VANILLA_PROFILE ''fn_function_keys''"
  using default_inherits_vanilla [of "''fn_function_keys''"] by simp

text \<open>C21: the parameters of the \<open>Default\<close> profile are \<open>PARAMETER_DEFAULTS\<close> with the to-if-alone timeout replaced, in place, by 500 ms.\<close>

theorem default_parameters_override:
  "\<exists>ps. PARAMETER_DEFAULTS = JObj ps \<and>
     get_path DEFAULT_PROFILE [''complex_modifications'', ''parameters''] =
       Some (JObj (AList.update ''basic.to_if_alone_timeout_milliseconds'' (JNum 500) ps))"
  by (simp add: DEFAULT_PROFILE_eval PARAMETER_DEFAULTS_eval js_eval)

text \<open>C22: the first rule of the \<open>Default\<close> profile holds 38 entries, two per \<open>spaceFN\<close> call, and its layer binds 19 distinct trigger keys to the targets the source lists, in order.\<close>

theorem spacefn_layer_bindings:
  "\<exists>ms. get_path DEFAULT_PROFILE [''complex_modifications'', ''rules'', ''0'', ''manipulators''] = Some (JArr ms) \<and>
     length ms = 38 \<and>
     layer_bindings ms =
       [(''b'', ''spacebar''), (''h'', ''left_arrow''), (''j'', ''down_arrow''), (''k'', ''up_arrow''),
        (''l'', ''right_arrow''), (''1'', ''display_brightness_decrement''),
        (''2'', ''display_brightness_increment''), (''3'', ''mission_control''), (''4'', ''launchpad''),
        (''5'', ''illumination_decrement''), (''6'', ''illumination_increment''), (''7'', ''rewind''),
        (''8'', ''play_or_pause''), (''9'', ''fast_forward''), (''0'', ''mute''),
        (''-'', ''volume_decrement''), (''='', ''volume_increment''), (''d'', ''PageDown''), (''u'', ''PageUp'')] \<and>
     distinct (map fst (layer_bindings ms))"
  by (simp add: DEFAULT_PROFILE_eval spacefn_layer_rule_eval js_eval spaceFN_length
                layer_bindings_spaceFN layer_bindings_spaceFN_last del: spaceFN_eval)
text \<open>C24: the layer's digit row (1 to 0, minus, equals) repeats the targets of the function-key row F1 to F12 except at 9, which the layer sends as \<open>fast_forward\<close> and the function-key row as \<open>fastforward\<close>.\<close>

theorem spacefn_digit_row_mismatch:
  "\<exists>ms fs. get_path DEFAULT_PROFILE [''complex_modifications'', ''rules'', ''0'', ''manipulators''] = Some (JArr ms) \<and>
     get_path DEFAULT_PROFILE [''fn_function_keys''] = Some (JArr fs) \<and>
     filter (\<lambda>(l, f). snd l \<noteq> snd f) (zip (take 12 (drop 5 (layer_bindings ms))) (simple_bindings fs)) =
       [((''9'', ''fast_forward''), (''f9'', ''fastforward''))]"
  by (simp add: DEFAULT_PROFILE_eval spacefn_layer_rule_eval js_eval layer_bindings_spaceFN layer_bindings_spaceFN_last
                simple_bindings_fromTo simple_bindings_fromTo_last del: spaceFN_eval fromTo_eval)

text \<open>C25: every key code of the \<open>Default\<close> profile is lower-case snake case except \<open>-\<close>, \<open>=\<close>, \<open>PageDown\<close> and \<open>PageUp\<close>.\<close>

theorem key_code_naming:
  "set (filter (\<lambda>s. \<not> karabiner_style s) (key_codes DEFAULT_PROFILE)) = {''-'', ''='', ''PageDown'', ''PageUp''}"
  by (simp add: DEFAULT_PROFILE_eval spacefn_layer_rule_eval key_codes_spaceFN key_codes_fromTo caps_escape_rule_def
      return_rule_def tab_rule_def shift_caps_rule_def REALFORCE_eval YUBIKEY_eval APPLE_INTERNAL_eval
      karabiner_style_def swap_def obj_lit_eval)

text \<open>C23: Caps Lock is simply remapped to left control, escape to Caps Lock, and the tap-for-escape rule is keyed on the key Caps Lock is remapped to, so that tapping Caps Lock sends escape.\<close>

theorem caps_lock_composition:
  "\<exists>sm. get DEFAULT_PROFILE ''simple_modifications'' = Some (JArr sm) \<and>
     simple_remap sm ''caps_lock'' = ''left_control'' \<and> simple_remap sm ''escape'' = ''caps_lock'' \<and>
     get_path DEFAULT_PROFILE [''complex_modifications'', ''rules'', ''1'', ''manipulators'', ''0'', ''from'', ''key_code''] =
       Some (JStr (simple_remap sm ''caps_lock'')) \<and>
     get_path DEFAULT_PROFILE [''complex_modifications'', ''rules'', ''1'', ''manipulators'', ''0'', ''to_if_alone'', ''0'', ''key_code''] =
       Some (JStr ''escape'')"
  by (simp add: DEFAULT_PROFILE_eval caps_escape_rule_def key_at_def obj_lit_eval)

end
