(* ===== verification/Runtime.thy ===== *)
theory Runtime
  imports Profiles "HOL-Library.Multiset"
begin

text \<open>
  How the remapping runtime executes the complex modifications of a profile, as
  section 4.3 of the specification describes the SpaceFN layer: an abstract consumer of
  the generated document, written from the specification (the runtime is not code of
  this repository). The runtime keeps a store of named integer variables (an unset
  variable reads as 0) and the list of chords that are held, each with the actions to run
  when it is released (\<open>to_after_key_up\<close>). An event is a key press, a chord of keys
  pressed in the given order with the given number of milliseconds between the first
  and the last press, or the release of a chord. For each event the first manipulator,
  in rule order, whose \<open>from\<close> matches and whose conditions hold is applied: its
  \<open>to\<close> actions set variables and send keys. A chord matches an entry whose
  \<open>simultaneous\<close> keys are the pressed keys in the order \<open>key_down_order\<close> requires,
  pressed closer together than the entry's threshold (its own parameter, else the
  profile's, else the runtime default of 1000 ms); a chord no entry matches is a sequence
  of single presses. Key releases of single keys, modifiers, and the timing of
  \<open>to_if_alone\<close>, \<open>to_if_held_down\<close> and \<open>lazy\<close> are not modelled: the output is the
  list of keys sent on key down.
\<close>

datatype action = SetVar string int | SendKey key_code

datatype event = KeyDown key_code | ChordDown "key_code list" nat | ChordUp "key_code list"

record rt_state =
  vars :: "string \<Rightarrow> int"
  held :: "(key_code list \<times> action list) list"

definition rt_init :: rt_state where
  "rt_init = \<lparr>vars = (\<lambda>_. 0), held = []\<rparr>"

text \<open>Reading the entries of the document: actions, conditions, chords and thresholds.\<close>

definition decode_action :: "jval \<Rightarrow> action option" where
  "decode_action a =
     (case (get_path a [''set_variable'', ''name''], get_path a [''set_variable'', ''value''], get a ''key_code'') of
        (Some (JStr n), Some (JNum v), _) \<Rightarrow> Some (SetVar n v)
      | (_, _, Some (JStr k)) \<Rightarrow> Some (SendKey k)
      | _ \<Rightarrow> None)"

fun actions_of :: "jval option \<Rightarrow> action list" where
  "actions_of (Some (JArr xs)) = List.map_filter decode_action xs"
| "actions_of (Some (JObj ps)) = List.map_filter decode_action [JObj ps]"
| "actions_of _ = []"

definition cond_holds :: "(string \<Rightarrow> int) \<Rightarrow> jval \<Rightarrow> bool" where
  "cond_holds vs c =
     (case (get c ''type'', get c ''name'', get c ''value'') of
        (Some (JStr t), Some (JStr n), Some (JNum v)) \<Rightarrow>
          (if t = ''variable_if'' then vs n = v else if t = ''variable_unless'' then vs n \<noteq> v else False)
      | _ \<Rightarrow> False)"

definition conds_ok :: "(string \<Rightarrow> int) \<Rightarrow> jval \<Rightarrow> bool" where
  "conds_ok vs m =
     (case get m ''conditions'' of
        None \<Rightarrow> True
      | Some (JArr cs) \<Rightarrow> list_all (cond_holds vs) cs
      | Some _ \<Rightarrow> False)"

definition chord_keys :: "jval \<Rightarrow> key_code list option" where
  "chord_keys m =
     (case get_path m [''from'', ''simultaneous''] of
        Some (JArr ks) \<Rightarrow>
          Some (List.map_filter (\<lambda>k. case get k ''key_code'' of Some (JStr c) \<Rightarrow> Some c | _ \<Rightarrow> None) ks)
      | _ \<Rightarrow> None)"

definition chord_match :: "jval \<Rightarrow> key_code list \<Rightarrow> bool" where
  "chord_match m ks =
     (case chord_keys m of
        None \<Rightarrow> False
      | Some cs \<Rightarrow>
          (let order = get_path m [''from'', ''simultaneous_options'', ''key_down_order''] in
           if order = Some (JStr ''strict'') then ks = cs
           else if order = Some (JStr ''strict_inverse'') then ks = rev cs
           else mset ks = mset cs))"

definition chord_threshold :: "jval \<Rightarrow> jval \<Rightarrow> int" where
  "chord_threshold params m =
     (case get_path m [''parameters'', ''basic.simultaneous_threshold_milliseconds''] of
        Some (JNum t) \<Rightarrow> t
      | _ \<Rightarrow> (case get params ''basic.simultaneous_threshold_milliseconds'' of
               Some (JNum t) \<Rightarrow> t
             | _ \<Rightarrow> 1000))"

text \<open>The actions an entry runs when it fires and when its chord is released.\<close>

definition to_actions :: "jval \<Rightarrow> action list" where
  "to_actions m = actions_of (get m ''to'')"

definition after_actions :: "jval \<Rightarrow> action list" where
  "after_actions m = actions_of (get_path m [''from'', ''simultaneous_options'', ''to_after_key_up''])"

text \<open>Which entry a key press or a chord selects.\<close>

definition key_pred :: "(string \<Rightarrow> int) \<Rightarrow> key_code \<Rightarrow> jval \<Rightarrow> bool" where
  "key_pred vs k m \<longleftrightarrow> chord_keys m = None \<and> key_at m ''from'' = Some k \<and> conds_ok vs m"

definition chord_pred :: "jval \<Rightarrow> (string \<Rightarrow> int) \<Rightarrow> key_code list \<Rightarrow> nat \<Rightarrow> jval \<Rightarrow> bool" where
  "chord_pred params vs ks d m \<longleftrightarrow> chord_match m ks \<and> int d < chord_threshold params m \<and> conds_ok vs m"

text \<open>Running actions: variables are set and keys sent in order.\<close>

fun apply_actions :: "(string \<Rightarrow> int) \<Rightarrow> action list \<Rightarrow> (string \<Rightarrow> int) \<times> key_code list" where
  "apply_actions vs [] = (vs, [])"
| "apply_actions vs (SetVar n v # as) = apply_actions (vs(n := v)) as"
| "apply_actions vs (SendKey k # as) = (case apply_actions vs as of (vs', out) \<Rightarrow> (vs', k # out))"

text \<open>One event.\<close>

definition key_down :: "jval list \<Rightarrow> rt_state \<Rightarrow> key_code \<Rightarrow> rt_state \<times> key_code list" where
  "key_down ms s k =
     (case find (key_pred (vars s) k) ms of
        None \<Rightarrow> (s, [k])
      | Some m \<Rightarrow> (case apply_actions (vars s) (to_actions m) of
                    (vs, out) \<Rightarrow> (s\<lparr>vars := vs\<rparr>, out)))"

fun key_downs :: "jval list \<Rightarrow> rt_state \<Rightarrow> key_code list \<Rightarrow> rt_state \<times> key_code list" where
  "key_downs ms s [] = (s, [])"
| "key_downs ms s (k # ks) =
     (case key_down ms s k of (s', out) \<Rightarrow> (case key_downs ms s' ks of (s'', out') \<Rightarrow> (s'', out @ out')))"

fun rt_step :: "jval \<Rightarrow> jval list \<Rightarrow> rt_state \<Rightarrow> event \<Rightarrow> rt_state \<times> key_code list" where
  "rt_step params ms s (KeyDown k) = key_down ms s k"
| "rt_step params ms s (ChordDown ks d) =
     (case find (chord_pred params (vars s) ks d) ms of
        None \<Rightarrow> key_downs ms s ks
      | Some m \<Rightarrow>
          (case apply_actions (vars s) (to_actions m) of
             (vs, out) \<Rightarrow> (s\<lparr>vars := vs, held := (ks, after_actions m) # held s\<rparr>,
                out)))"
| "rt_step params ms s (ChordUp ks) =
     (case map_of (held s) ks of
        None \<Rightarrow> (s, [])
      | Some acts \<Rightarrow>
          (case apply_actions (vars s) acts of
             (vs, out) \<Rightarrow> (s\<lparr>vars := vs, held := remove1 (ks, acts) (held s)\<rparr>, out)))"

fun rt_run :: "jval \<Rightarrow> jval list \<Rightarrow> rt_state \<Rightarrow> event list \<Rightarrow> key_code list" where
  "rt_run params ms s [] = []"
| "rt_run params ms s (e # es) = (case rt_step params ms s e of (s', out) \<Rightarrow> out @ rt_run params ms s' es)"

text \<open>The states the runtime can reach from the start, for one profile.\<close>

inductive rt_reach :: "jval \<Rightarrow> jval list \<Rightarrow> rt_state \<Rightarrow> bool" for params ms where
  init: "rt_reach params ms rt_init"
| step: "rt_reach params ms s \<Longrightarrow> rt_reach params ms (fst (rt_step params ms s e))"

text \<open>What the runtime reads from a profile: the manipulators of all rules in order, and
  the parameters.\<close>

definition complex_manipulators :: "jval \<Rightarrow> jval list" where
  "complex_manipulators p =
     concat (map (\<lambda>r. case as_arr (get r ''manipulators'') of Some ms \<Rightarrow> ms | None \<Rightarrow> [])
                 (case as_arr (get_path p [''complex_modifications'', ''rules'']) of Some rs \<Rightarrow> rs | None \<Rightarrow> []))"

definition complex_parameters :: "jval \<Rightarrow> jval" where
  "complex_parameters p = (case get_path p [''complex_modifications'', ''parameters''] of Some v \<Rightarrow> v | None \<Rightarrow> JObj [])"

text \<open>The values a list of actions writes to a variable, and the discipline of an entry
  towards a layer variable: it writes only 0 or 1, only a chord entry writes 1, and then
  its release writes 0; its release actions write only 0.\<close>

fun var_writes :: "string \<Rightarrow> action list \<Rightarrow> int list" where
  "var_writes v [] = []"
| "var_writes v (SetVar w n # as) = (if w = v then n # var_writes v as else var_writes v as)"
| "var_writes v (SendKey k # as) = var_writes v as"

definition layer_discipline :: "string \<Rightarrow> jval \<Rightarrow> bool" where
  "layer_discipline v m \<longleftrightarrow>
     (let tw = var_writes v (to_actions m); aw = var_writes v (after_actions m)
      in set aw \<subseteq> {0} \<and> set tw \<subseteq> {0, 1} \<and> (chord_keys m = None \<longrightarrow> set tw \<subseteq> {0}) \<and>
         (1 \<in> set tw \<longrightarrow> 0 \<in> set aw))"

definition layer_inv :: "string \<Rightarrow> rt_state \<Rightarrow> bool" where
  "layer_inv v s \<longleftrightarrow>
     vars s v \<in> {0, 1} \<and>
     list_all (\<lambda>(ks, acts). set (var_writes v acts) \<subseteq> {0}) (held s) \<and>
     (vars s v = 1 \<longrightarrow> list_ex (\<lambda>(ks, acts). 0 \<in> set (var_writes v acts)) (held s))"

text \<open>Running actions: the value a variable ends with is the last value written to it.\<close>

lemma apply_actions_var:
  "fst (apply_actions vs acts) v = (if var_writes v acts = [] then vs v else last (var_writes v acts))"
proof (induction acts arbitrary: vs)
  case (Cons a as)
  have "fst (apply_actions vs (SendKey k # as)) = fst (apply_actions vs as)" for k
    by (simp split: prod.split)
  with Cons show ?case by (cases a) simp_all
qed simp

lemma spacebar_chord_not_shift: "{#''spacebar'', k#} \<noteq> {#''left_shift'', ''right_shift''#}"
proof
  assume eq: "{#''spacebar'', k#} = {#''left_shift'', ''right_shift''#}"
  have "''spacebar'' \<in># {#''spacebar'', k#}" by simp
  then have "''spacebar'' \<in># {#''left_shift'', ''right_shift''#}" by (simp only: eq)
  then show False by simp
qed


text \<open>The two entries of \<open>spaceFN x y\<close> as the runtime sees them: the chord entry fires on
  space then \<open>x\<close> pressed less than 500 ms apart, the guarded entry on \<open>x\<close> while
  \<open>SpaceFN\<close> is 1.\<close>

lemma spaceFN_actions:
  "to_actions (hd (spaceFN x y)) = [SetVar ''SpaceFN'' 1, SendKey y] \<and>
   after_actions (hd (spaceFN x y)) = [SetVar ''SpaceFN'' 0] \<and>
   to_actions (last (spaceFN x y)) = [SendKey y] \<and> after_actions (last (spaceFN x y)) = []"
  by (simp add: spaceFN_eval decode_action_def to_actions_def after_actions_def)

lemma find_key_pred_spaceFN:
  "find (key_pred vs k) (spaceFN x y @ rest) =
     (if k = x \<and> vs ''SpaceFN'' = 1 then Some (last (spaceFN x y)) else find (key_pred vs k) rest)"
  by (auto simp: spaceFN_eval key_pred_def chord_keys_def key_at_def conds_ok_def cond_holds_def)

lemma find_chord_pred_spaceFN:
  "find (chord_pred params vs ks d) (spaceFN x y @ rest) =
     (if ks = [''spacebar'', x] \<and> int d < 500 then Some (hd (spaceFN x y)) else find (chord_pred params vs ks d) rest)"
  by (auto simp: spaceFN_eval chord_pred_def chord_match_def chord_keys_def chord_threshold_def conds_ok_def)

lemma find_key_pred_spaceFN_last:
  "find (key_pred vs k) (spaceFN x y) = (if k = x \<and> vs ''SpaceFN'' = 1 then Some (last (spaceFN x y)) else None)"
  using find_key_pred_spaceFN [of vs k x y "[]"] by simp

lemma find_chord_pred_spaceFN_last:
  "find (chord_pred params vs ks d) (spaceFN x y) = (if ks = [''spacebar'', x] \<and> int d < 500 then Some (hd (spaceFN x y)) else None)"
  using find_chord_pred_spaceFN [of params vs ks d x y "[]"] by simp


text \<open>In the \<open>Default\<close> profile the rules after the SpaceFN layer take no key of the layer
  and no chord of the space bar.\<close>

lemma default_find_key:
  "k \<notin> {''left_control'', ''return_or_enter'', ''tab''} \<Longrightarrow>
   find (key_pred vs k) (complex_manipulators DEFAULT_PROFILE) = find (key_pred vs k) spacefn_manipulators"
  by (auto simp add: complex_manipulators_def DEFAULT_PROFILE_eval spacefn_layer_rule_eval caps_escape_rule_def
      return_rule_def tab_rule_def shift_caps_rule_def obj_lit_eval find_append_case key_pred_def
      chord_keys_def key_at_def del: spaceFN_eval split: option.split)

lemma default_find_chord:
  "find (chord_pred params vs [''spacebar'', k] d) (complex_manipulators DEFAULT_PROFILE) =
   find (chord_pred params vs [''spacebar'', k] d) spacefn_manipulators"
  by (simp add: complex_manipulators_def DEFAULT_PROFILE_eval spacefn_layer_rule_eval caps_escape_rule_def
      return_rule_def tab_rule_def shift_caps_rule_def obj_lit_eval find_append_case chord_pred_def
      chord_match_def chord_keys_def spacebar_chord_not_shift del: spaceFN_eval split: option.split)


text \<open>A layer built of \<open>spaceFN\<close> calls with distinct triggers: the first entry for a key
  is the one of its binding.\<close>

lemma find_chord_layer:
  "find (chord_pred params vs [''spacebar'', k] d) (concat (map (\<lambda>(x, y). spaceFN x y) bs)) =
     (case map_of bs k of None \<Rightarrow> None | Some y \<Rightarrow> if int d < 500 then Some (hd (spaceFN k y)) else None)"
  by (induction bs) (auto simp: find_chord_pred_spaceFN split: option.split)

lemma find_key_layer:
  "find (key_pred vs k) (concat (map (\<lambda>(x, y). spaceFN x y) bs)) =
     (case map_of bs k of None \<Rightarrow> None | Some y \<Rightarrow> if vs ''SpaceFN'' = 1 then Some (last (spaceFN k y)) else None)"
  by (induction bs) (auto simp: find_key_pred_spaceFN split: option.split)

lemma layer_bindings_layer: "layer_bindings (concat (map (\<lambda>(x, y). spaceFN x y) bs)) = bs"
proof (induction bs)
  case Nil
  show ?case by (simp add: layer_bindings_def)
qed (auto simp: layer_bindings_spaceFN)

lemma spacefn_manipulators_layer:
  "spacefn_manipulators = concat (map (\<lambda>(x, y). spaceFN x y)
     [(''b'', ''spacebar''), (''h'', ''left_arrow''), (''j'', ''down_arrow''), (''k'', ''up_arrow''),
      (''l'', ''right_arrow''), (''1'', ''display_brightness_decrement''),
      (''2'', ''display_brightness_increment''), (''3'', ''mission_control''), (''4'', ''launchpad''),
      (''5'', ''illumination_decrement''), (''6'', ''illumination_increment''), (''7'', ''rewind''),
      (''8'', ''play_or_pause''), (''9'', ''fast_forward''), (''0'', ''mute''),
      (''-'', ''volume_decrement''), (''='', ''volume_increment''), (''d'', ''PageDown''), (''u'', ''PageUp'')])"
  by simp

lemma spacefn_manipulators_bindings:
  "concat (map (\<lambda>(x, y). spaceFN x y) (layer_bindings spacefn_manipulators)) = spacefn_manipulators"
  unfolding spacefn_manipulators_layer layer_bindings_layer ..

lemma layer_binding_lookup:
  assumes "(x, y) \<in> set (layer_bindings spacefn_manipulators)"
  shows "map_of (layer_bindings spacefn_manipulators) x = Some y \<and>
         x \<notin> {''left_control'', ''return_or_enter'', ''tab'', ''spacebar''}"
proof -
  let ?bs = "layer_bindings spacefn_manipulators"
  have "distinct (map fst ?bs)" by (simp only: spacefn_manipulators_layer layer_bindings_layer) simp
  with assms have "map_of ?bs x = Some y" by (rule map_of_is_SomeI [rotated])
  moreover have "x \<notin> {''left_control'', ''return_or_enter'', ''tab'', ''spacebar''}"
    using assms by (simp only: spacefn_manipulators_layer layer_bindings_layer) auto
  ultimately show ?thesis by simp
qed

lemma layer_find_key:
  assumes "(x, y) \<in> set (layer_bindings spacefn_manipulators)"
  shows "find (key_pred vs x) spacefn_manipulators = (if vs ''SpaceFN'' = 1 then Some (last (spaceFN x y)) else None)"
  using find_key_layer [of vs x "layer_bindings spacefn_manipulators"] layer_binding_lookup [OF assms]
  by (simp only: spacefn_manipulators_bindings option.case)

lemma layer_find_chord:
  assumes "(x, y) \<in> set (layer_bindings spacefn_manipulators)"
  shows "find (chord_pred params vs [''spacebar'', x] d) spacefn_manipulators =
           (if int d < 500 then Some (hd (spaceFN x y)) else None)"
  using find_chord_layer [of params vs x d "layer_bindings spacefn_manipulators"] layer_binding_lookup [OF assms]
  by (simp only: spacefn_manipulators_bindings option.case)

lemma layer_find_spacebar: "find (key_pred vs ''spacebar'') spacefn_manipulators = None"
  by (simp add: find_key_pred_spaceFN find_key_pred_spaceFN_last)


text \<open>The layer discipline holds of every entry of the \<open>Default\<close> profile, and it keeps the
  layer invariant: every step of the runtime preserves it, so every reachable state has it.\<close>

lemma apply_actions_var_cases:
  "fst (apply_actions vs acts) v = vs v \<and> var_writes v acts = [] \<or>
   fst (apply_actions vs acts) v \<in> set (var_writes v acts)"
  by (simp add: apply_actions_var)

lemma layer_discipline_key:
  "layer_discipline v m \<Longrightarrow> chord_keys m = None \<Longrightarrow> set (var_writes v (to_actions m)) \<subseteq> {0}"
  by (simp add: layer_discipline_def Let_def)

lemma key_down_layer_inv:
  assumes inv: "layer_inv v s" and disc: "list_all (layer_discipline v) ms"
  shows "layer_inv v (fst (key_down ms s k))"
proof (cases "find (key_pred (vars s) k) ms")
  case None
  then show ?thesis using inv by (simp add: key_down_def)
next
  case (Some m)
  then have "m \<in> set ms" "chord_keys m = None" by (auto dest: find_SomeD simp: key_pred_def)
  then have w: "set (var_writes v (to_actions m)) \<subseteq> {0}"
    using disc layer_discipline_key by (auto simp: list_all_iff)
  have "fst (apply_actions (vars s) (to_actions m)) v \<in> {0, vars s v}"
    using apply_actions_var_cases [of "vars s" "to_actions m" v] w by auto
  then show ?thesis using inv Some by (auto simp: key_down_def layer_inv_def case_prod_unfold)
qed

lemma key_downs_layer_inv:
  "layer_inv v s \<Longrightarrow> list_all (layer_discipline v) ms \<Longrightarrow> layer_inv v (fst (key_downs ms s ks))"
proof (induction ks arbitrary: s)
  case (Cons k ks)
  from Cons.prems have "layer_inv v (fst (key_down ms s k))" by (rule key_down_layer_inv)
  with Cons.IH Cons.prems(2) show ?case by (simp add: case_prod_unfold)
qed simp

lemma chord_down_layer_inv:
  assumes inv: "layer_inv v s" and disc: "list_all (layer_discipline v) ms"
    and m: "find (chord_pred params (vars s) ks d) ms = Some m"
  shows "layer_inv v (s\<lparr>vars := fst (apply_actions (vars s) (to_actions m)),
                         held := (ks, after_actions m) # held s\<rparr>)"
proof -
  have "layer_discipline v m" using m disc by (auto dest: find_SomeD simp: list_all_iff)
  then have tw: "set (var_writes v (to_actions m)) \<subseteq> {0, 1}"
    and aw: "set (var_writes v (after_actions m)) \<subseteq> {0}"
    and reset: "1 \<in> set (var_writes v (to_actions m)) \<Longrightarrow> 0 \<in> set (var_writes v (after_actions m))"
    by (auto simp: layer_discipline_def Let_def)
  let ?n = "fst (apply_actions (vars s) (to_actions m)) v"
  consider (same) "?n = vars s v" | (written) "?n \<in> set (var_writes v (to_actions m))"
    using apply_actions_var_cases by blast
  then show ?thesis
  proof cases
    case same
    then show ?thesis using inv aw by (auto simp: layer_inv_def)
  next
    case written
    with tw reset have "?n = 1 \<Longrightarrow> 0 \<in> set (var_writes v (after_actions m))" by auto
    with written tw inv aw show ?thesis by (auto simp: layer_inv_def)
  qed
qed

lemma chord_up_layer_inv:
  assumes inv: "layer_inv v s" and acts: "map_of (held s) ks = Some acts"
  shows "layer_inv v (s\<lparr>vars := fst (apply_actions (vars s) acts), held := remove1 (ks, acts) (held s)\<rparr>)"
proof -
  have mem: "(ks, acts) \<in> set (held s)" using acts by (rule map_of_SomeD)
  then have aw: "set (var_writes v acts) \<subseteq> {0}" using inv by (auto simp: layer_inv_def list_all_iff)
  have sub: "set (remove1 (ks, acts) (held s)) \<subseteq> set (held s)" by (rule set_remove1_subset)
  have all: "list_all (\<lambda>(ks, acts). set (var_writes v acts) \<subseteq> {0}) (remove1 (ks, acts) (held s))"
    using inv sub unfolding layer_inv_def list_all_iff by blast
  let ?n = "fst (apply_actions (vars s) acts) v"
  consider (same) "?n = vars s v" "var_writes v acts = []" | (written) "?n \<in> set (var_writes v acts)"
    using apply_actions_var_cases by blast
  then show ?thesis
  proof cases
    case same
    have "list_ex (\<lambda>(ks, acts). 0 \<in> set (var_writes v acts)) (remove1 (ks, acts) (held s))"
      if "vars s v = 1"
    proof -
      from inv that obtain e where e: "e \<in> set (held s)" "0 \<in> set (var_writes v (snd e))"
        by (auto simp: layer_inv_def list_ex_iff)
      with same have "e \<noteq> (ks, acts)" by auto
      with e have "e \<in> set (remove1 (ks, acts) (held s))" by (simp add: mem_remove1)
      with e(2) show ?thesis by (cases e) (force simp: list_ex_iff)
    qed
    with same inv all show ?thesis by (simp add: layer_inv_def)
  next
    case written
    with aw have "?n = 0" by auto
    with all show ?thesis by (simp add: layer_inv_def)
  qed
qed

lemma rt_step_layer_inv:
  assumes inv: "layer_inv v s" and disc: "list_all (layer_discipline v) ms"
  shows "layer_inv v (fst (rt_step params ms s e))"
proof (cases e)
  case (KeyDown k)
  then show ?thesis using key_down_layer_inv [OF inv disc] by simp
next
  case (ChordDown ks d)
  then show ?thesis
    using key_downs_layer_inv [OF inv disc] chord_down_layer_inv [OF inv disc]
    by (auto simp: case_prod_unfold split: option.split)
next
  case (ChordUp ks)
  then show ?thesis using inv chord_up_layer_inv [OF inv]
    by (auto simp: case_prod_unfold split: option.split)
qed

lemma rt_reach_layer_inv:
  "rt_reach params ms s \<Longrightarrow> list_all (layer_discipline v) ms \<Longrightarrow> layer_inv v s"
proof (induction rule: rt_reach.induct)
  case init
  then show ?case by (simp add: layer_inv_def rt_init_def)
next
  case (step s e)
  then show ?case by (simp add: rt_step_layer_inv)
qed

lemma spaceFN_discipline: "list_all (layer_discipline ''SpaceFN'') (spaceFN x y)"
  by (simp add: spaceFN_eval layer_discipline_def to_actions_def after_actions_def decode_action_def chord_keys_def)

lemma default_discipline: "list_all (layer_discipline ''SpaceFN'') (complex_manipulators DEFAULT_PROFILE)"
  by (simp add: complex_manipulators_def DEFAULT_PROFILE_eval spacefn_layer_rule_eval caps_escape_rule_def
      return_rule_def tab_rule_def shift_caps_rule_def obj_lit_eval spaceFN_discipline
      layer_discipline_def to_actions_def after_actions_def decode_action_def chord_keys_def)


text \<open>C6: for every binding \<open>(x, y)\<close> of the SpaceFN layer of the \<open>Default\<close> profile, pressing
  space and \<open>x\<close> together (less than 500 ms apart) sends \<open>y\<close>; pressing \<open>x\<close> again while the
  chord is held sends \<open>y\<close> each time; after the chord is released \<open>x\<close> is \<open>x\<close> again.\<close>

theorem spacefn_session:
  assumes b: "(x, y) \<in> set (layer_bindings spacefn_manipulators)" and d: "d < 500"
  shows "rt_run (complex_parameters DEFAULT_PROFILE) (complex_manipulators DEFAULT_PROFILE) rt_init
           [ChordDown [''spacebar'', x] d, KeyDown x, KeyDown x, ChordUp [''spacebar'', x], KeyDown x] = [y, y, y, x]"
proof -
  have x: "x \<notin> {''left_control'', ''return_or_enter'', ''tab''}" using layer_binding_lookup [OF b] by simp
  show ?thesis
    using d by (simp add: rt_init_def default_find_key [OF x] layer_find_key [OF b] default_find_chord
                          layer_find_chord [OF b] spaceFN_actions key_down_def)
qed


text \<open>C7: in every state the runtime reaches on the \<open>Default\<close> profile, the \<open>SpaceFN\<close>
  variable is 0 or 1, and it is 0 whenever no chord is held: releasing the chords always
  turns the layer off.\<close>

theorem spacefn_layer_invariant:
  "rt_reach (complex_parameters DEFAULT_PROFILE) (complex_manipulators DEFAULT_PROFILE) s \<Longrightarrow>
   vars s ''SpaceFN'' \<in> {0, 1} \<and> (held s = [] \<longrightarrow> vars s ''SpaceFN'' = 0)"
proof -
  assume "rt_reach (complex_parameters DEFAULT_PROFILE) (complex_manipulators DEFAULT_PROFILE) s"
  then have "layer_inv ''SpaceFN'' s" using default_discipline by (rule rt_reach_layer_inv)
  then show ?thesis by (auto simp: layer_inv_def)
qed


text \<open>C8: the layer chord is recognised exactly when the two presses are less than 500 ms
  apart, the threshold of the \<open>spaceFN\<close> entry, which overrides the profile's 50 ms; then
  it sets \<open>SpaceFN\<close> to 1, holds the reset for the release and sends \<open>y\<close>. Otherwise space
  and \<open>x\<close> are sent as two plain presses and the state is unchanged.\<close>

theorem spacefn_chord_threshold:
  assumes b: "(x, y) \<in> set (layer_bindings spacefn_manipulators)"
  shows "rt_step (complex_parameters DEFAULT_PROFILE) (complex_manipulators DEFAULT_PROFILE) rt_init
           (ChordDown [''spacebar'', x] d) =
         (if d < 500
          then (\<lparr>vars = (\<lambda>_. 0)(''SpaceFN'' := 1), held = [([''spacebar'', x], [SetVar ''SpaceFN'' 0])]\<rparr>, [y])
          else (rt_init, [''spacebar'', x]))"
proof -
  have x: "x \<notin> {''left_control'', ''return_or_enter'', ''tab''}" using layer_binding_lookup [OF b] by simp
  have sp: "''spacebar'' \<notin> {''left_control'', ''return_or_enter'', ''tab''}" by simp
  show ?thesis
    using layer_binding_lookup [OF b]
    by (simp add: rt_init_def default_find_key [OF x] default_find_key [OF sp] layer_find_key [OF b]
                  layer_find_spacebar default_find_chord layer_find_chord [OF b] spaceFN_actions key_down_def)
qed


theorem spacefn_session_witness:
  "(''h'', ''left_arrow'') \<in> set (layer_bindings spacefn_manipulators) \<and> (100::nat) < 500 \<and>
   rt_run (complex_parameters DEFAULT_PROFILE) (complex_manipulators DEFAULT_PROFILE) rt_init
     [ChordDown [''spacebar'', ''h''] 100, KeyDown ''h'', KeyDown ''h'', ChordUp [''spacebar'', ''h''], KeyDown ''h''] =
   [''left_arrow'', ''left_arrow'', ''left_arrow'', ''h'']"
proof -
  have m: "(''h'', ''left_arrow'') \<in> set (layer_bindings spacefn_manipulators)"
    by (simp add: layer_bindings_spaceFN layer_bindings_spaceFN_last)
  show ?thesis using m spacefn_session [OF m, of 100] by simp
qed

theorem spacefn_chord_threshold_witness:
  "(''h'', ''left_arrow'') \<in> set (layer_bindings spacefn_manipulators) \<and>
   snd (rt_step (complex_parameters DEFAULT_PROFILE) (complex_manipulators DEFAULT_PROFILE) rt_init (ChordDown [''spacebar'', ''h''] 100)) = [''left_arrow''] \<and>
   snd (rt_step (complex_parameters DEFAULT_PROFILE) (complex_manipulators DEFAULT_PROFILE) rt_init (ChordDown [''spacebar'', ''h''] 700)) = [''spacebar'', ''h'']"
proof -
  have m: "(''h'', ''left_arrow'') \<in> set (layer_bindings spacefn_manipulators)"
    by (simp add: layer_bindings_spaceFN layer_bindings_spaceFN_last)
  show ?thesis using m spacefn_chord_threshold [OF m, of 100] spacefn_chord_threshold [OF m, of 700] by simp
qed

theorem spacefn_layer_invariant_witness:
  "let s = fst (rt_step (complex_parameters DEFAULT_PROFILE) (complex_manipulators DEFAULT_PROFILE)
             (fst (rt_step (complex_parameters DEFAULT_PROFILE) (complex_manipulators DEFAULT_PROFILE) rt_init (ChordDown [''spacebar'', ''h''] 100)))
             (ChordUp [''spacebar'', ''h'']))
   in rt_reach (complex_parameters DEFAULT_PROFILE) (complex_manipulators DEFAULT_PROFILE) s \<and> held s = [] \<and> vars s ''SpaceFN'' = 0"
proof -
  let ?s1 = "fst (rt_step (complex_parameters DEFAULT_PROFILE) (complex_manipulators DEFAULT_PROFILE) rt_init (ChordDown [''spacebar'', ''h''] 100))"
  let ?s2 = "fst (rt_step (complex_parameters DEFAULT_PROFILE) (complex_manipulators DEFAULT_PROFILE) ?s1 (ChordUp [''spacebar'', ''h'']))"
  have r: "rt_reach (complex_parameters DEFAULT_PROFILE) (complex_manipulators DEFAULT_PROFILE) ?s2" by (intro rt_reach.step rt_reach.init)
  have m: "(''h'', ''left_arrow'') \<in> set (layer_bindings spacefn_manipulators)"
    by (simp add: layer_bindings_spaceFN layer_bindings_spaceFN_last)
  have h: "held ?s2 = []"
    by (simp add: rt_init_def default_find_chord layer_find_chord [OF m] spaceFN_actions)
  show ?thesis using spacefn_layer_invariant [OF r] r h by (simp add: Let_def)
qed

end
