(* ===== verification/Stringify.thy ===== *)
theory Stringify
  imports JsValue
begin

text \<open>
  \<open>JSON.stringify(value, null, space)\<close> (ECMAScript, SerializeJSONProperty,
  QuoteJSONString, SerializeJSONObject, SerializeJSONArray) on the values of the model:
  the gap is \<open>min 10 space\<close> spaces; an empty array or object prints as \<open>[]\<close> or
  \<open>{}\<close>; otherwise, with a non-empty gap, each element or member goes on its own line,
  indented by one more gap than the enclosing value, members as \<open>"key": value\<close>.
  Strings are escaped as QuoteJSONString does (the two-character escapes, \<open>\u00xx\<close>
  in lower-case hexadecimal for other control characters); a \<open>char\<close> is one code unit.
  Integers print in decimal (\<open>Number::toString\<close> for integers below \<open>10^21\<close>).
\<close>

definition nl :: char where
  "nl = CHR 0x0A"

definition hex_char :: "nat \<Rightarrow> char" where
  "hex_char d = (if d < 10 then char_of (48 + d) else char_of (87 + d))"

definition quote_char :: "char \<Rightarrow> string" where
  "quote_char c =
     (if c = CHR 0x22 then [CHR 0x5C, CHR 0x22]
      else if c = CHR 0x5C then [CHR 0x5C, CHR 0x5C]
      else if c = CHR 0x08 then [CHR 0x5C, CHR ''b'']
      else if c = CHR 0x0C then [CHR 0x5C, CHR ''f'']
      else if c = CHR 0x0A then [CHR 0x5C, CHR ''n'']
      else if c = CHR 0x0D then [CHR 0x5C, CHR ''r'']
      else if c = CHR 0x09 then [CHR 0x5C, CHR ''t'']
      else if of_char c < (32::nat) then
        [CHR 0x5C, CHR ''u'', CHR ''0'', CHR ''0'', hex_char (of_char c div 16), hex_char (of_char c mod 16)]
      else [c])"

definition quote_json :: "string \<Rightarrow> string" where
  "quote_json s = CHR 0x22 # concat (map quote_char s) @ [CHR 0x22]"

definition num_to_str :: "int \<Rightarrow> string" where
  "num_to_str n = (if n < 0 then CHR ''-'' # nat_to_str (nat (- n)) else nat_to_str (nat n))"

fun ser :: "string \<Rightarrow> string \<Rightarrow> jval \<Rightarrow> string"
and ser_elems :: "string \<Rightarrow> string \<Rightarrow> jval list \<Rightarrow> string list"
and ser_members :: "string \<Rightarrow> string \<Rightarrow> props \<Rightarrow> string list" where
  "ser gap ind JNull = ''null''"
| "ser gap ind (JBool b) = (if b then ''true'' else ''false'')"
| "ser gap ind (JNum n) = num_to_str n"
| "ser gap ind (JStr s) = quote_json s"
| "ser gap ind (JArr xs) =
     (if xs = [] then ''[]''
      else if gap = [] then CHR ''['' # join '','' (ser_elems gap ind xs) @ '']''
      else CHR ''['' # nl # (ind @ gap) @ join ('','' @ nl # ind @ gap) (ser_elems gap (ind @ gap) xs) @
           nl # ind @ '']'')"
| "ser gap ind (JObj ps) =
     (if ps = [] then ''{}''
      else if gap = [] then CHR ''{'' # join '','' (ser_members gap ind ps) @ ''}''
      else CHR ''{'' # nl # (ind @ gap) @ join ('','' @ nl # ind @ gap) (ser_members gap (ind @ gap) ps) @
           nl # ind @ ''}'')"
| "ser_elems gap ind [] = []"
| "ser_elems gap ind (x # xs) = ser gap ind x # ser_elems gap ind xs"
| "ser_members gap ind [] = []"
| "ser_members gap ind ((k, v) # ps) =
     (quote_json k @ '':'' @ (if gap = [] then [] else '' '') @ ser gap ind v) # ser_members gap ind ps"

definition json_stringify :: "jval \<Rightarrow> nat \<Rightarrow> string" where
  "json_stringify v space = ser (replicate (min 10 space) CHR '' '') [] v"

text \<open>The layout of a non-empty array or object: the opening bracket, each element or
  member preceded by a separator, and the closing bracket on its own line.\<close>

lemma ser_elems_map: "ser_elems gap ind xs = map (ser gap ind) xs"
  by (induction xs) simp_all

lemma ser_members_map:
  "ser_members gap ind ps = map (\<lambda>(k, v). quote_json k @ CHR '':'' # (if gap = [] then [] else '' '') @ ser gap ind v) ps"
  by (induction ps) auto

lemma ser_JArr_Cons:
  "ser gap ind (JArr (x # xs)) =
     CHR ''['' # (if gap = [] then [] else nl # ind @ gap) @ ser gap (ind @ gap) x @
     concat (map (\<lambda>y. (CHR '','' # (if gap = [] then [] else nl # ind @ gap)) @ ser gap (ind @ gap) y) xs) @
     (if gap = [] then [] else nl # ind) @ '']''"
  by (simp add: ser_elems_map join_Cons_concat comp_def)

lemma ser_JObj_Cons:
  "ser gap ind (JObj (p # ps)) =
     CHR ''{'' # (if gap = [] then [] else nl # ind @ gap) @
     (\<lambda>(k, v). quote_json k @ CHR '':'' # (if gap = [] then [] else '' '') @ ser gap (ind @ gap) v) p @
     concat (map (\<lambda>y. (CHR '','' # (if gap = [] then [] else nl # ind @ gap)) @
        (\<lambda>(k, v). quote_json k @ CHR '':'' # (if gap = [] then [] else '' '') @ ser gap (ind @ gap) v) y) ps) @
     (if gap = [] then [] else nl # ind) @ ''}''"
  by (simp add: ser_members_map join_Cons_concat comp_def del: ser_members.simps)

lemma num_start: "\<exists>c cs. num_to_str n = c # cs \<and> (c = CHR ''-'' \<or> is_digit c)"
proof -
  obtain d ds where d: "nat_to_str (nat \<bar>n\<bar>) = d # ds" by (cases "nat_to_str (nat \<bar>n\<bar>)") auto
  have "is_digit d" using nat_to_str_digits [of "nat \<bar>n\<bar>"] d by simp
  with d show ?thesis by (cases "n < 0") (auto simp: num_to_str_def)
qed

end
