(* ===== verification/JsonParse.thy ===== *)
theory JsonParse
  imports Stringify
begin

text \<open>
  A parser for the JSON text the program writes (RFC 8259, with numbers restricted to
  integers, the only numbers the configuration holds): the specification of what the
  output means to the remapping runtime that reads it. It returns the parsed value and
  the rest of the input, or \<open>None\<close>. Nested values are parsed with fuel, one unit per
  call; every call consumes at least one character, so the length of the input plus one
  is enough fuel, which the round-trip theorem below confirms. A \<open>\u\<close> escape above
  \<open>00ff\<close> names no \<open>char\<close> of the model and is rejected.
\<close>

definition is_ws :: "char \<Rightarrow> bool" where
  "is_ws c \<longleftrightarrow> c = CHR '' '' \<or> c = CHR 0x09 \<or> c = CHR 0x0A \<or> c = CHR 0x0D"

fun skip_ws :: "string \<Rightarrow> string" where
  "skip_ws [] = []"
| "skip_ws (c # cs) = (if is_ws c then skip_ws cs else c # cs)"

definition hex_val :: "char \<Rightarrow> nat option" where
  "hex_val c =
     (if is_digit c then Some (of_char c - 48)
      else if (97::nat) \<le> of_char c \<and> of_char c \<le> (102::nat) then Some (of_char c - 87)
      else if (65::nat) \<le> of_char c \<and> of_char c \<le> (70::nat) then Some (of_char c - 55)
      else None)"

definition simple_escape :: "char \<Rightarrow> char option" where
  "simple_escape e =
     (if e = CHR 0x22 then Some (CHR 0x22)
      else if e = CHR 0x5C then Some (CHR 0x5C)
      else if e = CHR ''/'' then Some (CHR ''/'')
      else if e = CHR ''b'' then Some (CHR 0x08)
      else if e = CHR ''f'' then Some (CHR 0x0C)
      else if e = CHR ''n'' then Some (CHR 0x0A)
      else if e = CHR ''r'' then Some (CHR 0x0D)
      else if e = CHR ''t'' then Some (CHR 0x09)
      else None)"

text \<open>The characters of a string literal up to its closing quote.\<close>

function parse_chars :: "string \<Rightarrow> string \<Rightarrow> (string \<times> string) option" where
  "parse_chars acc [] = None"
| "parse_chars acc (c # cs) =
     (if c = CHR 0x22 then Some (rev acc, cs)
      else if c = CHR 0x5C then
        (case cs of
           [] \<Rightarrow> None
         | e # cs' \<Rightarrow>
             if e = CHR ''u'' then
               (if length cs' < 4 then None
                else case (hex_val (cs' ! 0), hex_val (cs' ! 1), hex_val (cs' ! 2), hex_val (cs' ! 3)) of
                       (Some d1, Some d2, Some d3, Some d4) \<Rightarrow>
                         (if ((d1 * 16 + d2) * 16 + d3) * 16 + d4 < 256
                          then parse_chars (char_of (((d1 * 16 + d2) * 16 + d3) * 16 + d4) # acc) (drop 4 cs')
                          else None)
                     | _ \<Rightarrow> None)
             else (case simple_escape e of
                     Some ch \<Rightarrow> parse_chars (ch # acc) cs'
                   | None \<Rightarrow> None))
      else if of_char c < (32::nat) then None
      else parse_chars (c # acc) cs)"
  by pat_completeness auto
termination
  by (relation "measure (\<lambda>(acc, s). length s)") auto

definition parse_number :: "string \<Rightarrow> (jval \<times> string) option" where
  "parse_number s =
     (let neg = (s \<noteq> [] \<and> hd s = CHR ''-'');
          s1 = (if neg then tl s else s);
          ds = takeWhile is_digit s1
      in if ds = [] \<or> (hd ds = CHR ''0'' \<and> 1 < length ds) then None
         else case str_to_nat ds of
                None \<Rightarrow> None
              | Some n \<Rightarrow> Some (JNum (if neg then - int n else int n), dropWhile is_digit s1))"

fun parse_value :: "nat \<Rightarrow> string \<Rightarrow> (jval \<times> string) option"
and parse_array_rest :: "nat \<Rightarrow> jval list \<Rightarrow> string \<Rightarrow> (jval list \<times> string) option"
and parse_member :: "nat \<Rightarrow> string \<Rightarrow> ((string \<times> jval) \<times> string) option"
and parse_object_rest :: "nat \<Rightarrow> props \<Rightarrow> string \<Rightarrow> (props \<times> string) option" where
  "parse_value 0 s = None"
| "parse_value (Suc f) s =
     (case skip_ws s of
        [] \<Rightarrow> None
      | c # cs \<Rightarrow>
          if c = CHR ''['' then
            (case skip_ws cs of
               [] \<Rightarrow> None
             | d # r \<Rightarrow>
                 if d = CHR '']'' then Some (JArr [], r)
                 else (case parse_value f (d # r) of
                         None \<Rightarrow> None
                       | Some (v, r') \<Rightarrow> map_option (\<lambda>(vs, r''). (JArr vs, r'')) (parse_array_rest f [v] r')))
          else if c = CHR ''{'' then
            (case skip_ws cs of
               [] \<Rightarrow> None
             | d # r \<Rightarrow>
                 if d = CHR ''}'' then Some (JObj [], r)
                 else (case parse_member f (d # r) of
                         None \<Rightarrow> None
                       | Some (p, r') \<Rightarrow> map_option (\<lambda>(ps, r''). (JObj ps, r'')) (parse_object_rest f [p] r')))
          else if c = CHR 0x22 then map_option (\<lambda>(str, r). (JStr str, r)) (parse_chars [] cs)
          else if take 4 (c # cs) = ''null'' then Some (JNull, drop 3 cs)
          else if take 4 (c # cs) = ''true'' then Some (JBool True, drop 3 cs)
          else if take 5 (c # cs) = ''false'' then Some (JBool False, drop 4 cs)
          else parse_number (c # cs))"
| "parse_array_rest 0 acc s = None"
| "parse_array_rest (Suc f) acc s =
     (case skip_ws s of
        [] \<Rightarrow> None
      | c # cs \<Rightarrow>
          if c = CHR '']'' then Some (rev acc, cs)
          else if c = CHR '','' then
            (case parse_value f cs of
               None \<Rightarrow> None
             | Some (v, r) \<Rightarrow> parse_array_rest f (v # acc) r)
          else None)"
| "parse_member 0 s = None"
| "parse_member (Suc f) s =
     (case skip_ws s of
        [] \<Rightarrow> None
      | c # cs \<Rightarrow>
          if c = CHR 0x22 then
            (case parse_chars [] cs of
               None \<Rightarrow> None
             | Some (k, r) \<Rightarrow>
                 (case skip_ws r of
                    [] \<Rightarrow> None
                  | d # r' \<Rightarrow>
                      if d = CHR '':'' then
                        (case parse_value f r' of
                           None \<Rightarrow> None
                         | Some (v, r'') \<Rightarrow> Some ((k, v), r''))
                      else None))
          else None)"
| "parse_object_rest 0 acc s = None"
| "parse_object_rest (Suc f) acc s =
     (case skip_ws s of
        [] \<Rightarrow> None
      | c # cs \<Rightarrow>
          if c = CHR ''}'' then Some (rev acc, cs)
          else if c = CHR '','' then
            (case parse_member f cs of
               None \<Rightarrow> None
             | Some (p, r) \<Rightarrow> parse_object_rest f (p # acc) r)
          else None)"

definition parse_json :: "string \<Rightarrow> jval option" where
  "parse_json s =
     (case parse_value (Suc (length s)) s of
        None \<Rightarrow> None
      | Some (v, r) \<Rightarrow> if skip_ws r = [] then Some v else None)"

text \<open>Whitespace, string escapes and numbers: each printer of \<open>Stringify\<close> is undone by
  the corresponding piece of the parser.\<close>

lemma skip_ws_append: "\<forall>c \<in> set w. is_ws c \<Longrightarrow> skip_ws (w @ s) = skip_ws s"
  by (induction w) auto

lemma hex_val_hex_char: "d < 16 \<Longrightarrow> hex_val (hex_char d) = Some d"
  by (auto simp: hex_val_def hex_char_def is_digit_def)

lemma hex_val_zero: "hex_val (CHR ''0'') = Some 0"
  by (simp add: hex_val_def is_digit_def)

lemma parse_chars_quote_char: "parse_chars acc (quote_char c @ r) = parse_chars (c # acc) r"
proof -
  consider "c = CHR 0x22" | "c = CHR 0x5C" | "c = CHR 0x08" | "c = CHR 0x0C" | "c = CHR 0x0A"
    | "c = CHR 0x0D" | "c = CHR 0x09"
    | "c \<notin> {CHR 0x22, CHR 0x5C, CHR 0x08, CHR 0x0C, CHR 0x0A, CHR 0x0D, CHR 0x09}" "of_char c < (32::nat)"
    | "c \<notin> {CHR 0x22, CHR 0x5C, CHR 0x08, CHR 0x0C, CHR 0x0A, CHR 0x0D, CHR 0x09}" "\<not> of_char c < (32::nat)"
    by blast
  then show ?thesis
  proof cases
    case 8
    have h1: "hex_val (hex_char (of_char c div 16)) = Some (of_char c div 16)"
      using 8 by (intro hex_val_hex_char) simp
    have h2: "hex_val (hex_char (of_char c mod 16)) = Some (of_char c mod 16)"
      by (intro hex_val_hex_char) simp
    have n: "((0 * 16 + 0) * 16 + of_char c div 16) * 16 + of_char c mod 16 = (of_char c :: nat)"
      by simp
    from 8 show ?thesis
      by (simp add: quote_char_def h1 h2 hex_val_zero n del: mult_0 add_0)
  next
    case 9
    then show ?thesis by (simp add: quote_char_def)
  qed (simp_all add: quote_char_def simple_escape_def)
qed

lemma parse_chars_quote:
  "parse_chars acc (concat (map quote_char s) @ CHR 0x22 # rest) = Some (rev acc @ s, rest)"
  by (induction s arbitrary: acc) (simp_all add: parse_chars_quote_char)

lemma num_rest_stop: "rest = [] \<or> \<not> is_digit (hd rest) \<Longrightarrow> takeWhile is_digit rest = [] \<and> dropWhile is_digit rest = rest"
  by (cases rest) auto

lemma parse_nat_str:
  assumes "rest = [] \<or> \<not> is_digit (hd rest)"
  shows "takeWhile is_digit (nat_to_str m @ rest) = nat_to_str m \<and> dropWhile is_digit (nat_to_str m @ rest) = rest"
  using nat_to_str_digits [of m] num_rest_stop [OF assms] by (simp add: takeWhile_append2 dropWhile_append2)

lemma parse_number_num:
  assumes "rest = [] \<or> \<not> is_digit (hd rest)"
  shows "parse_number (num_to_str n @ rest) = Some (JNum n, rest)"
proof (cases "n < 0")
  case True
  have "nat_to_str (nat (- n)) \<noteq> []" by simp
  with True parse_nat_str [OF assms, of "nat (- n)"] nat_to_str_leading [of "nat (- n)"] show ?thesis
    by (simp add: parse_number_def num_to_str_def Let_def)
next
  case False
  have ne: "nat_to_str (nat n) @ rest \<noteq> []" by simp
  have "hd (nat_to_str (nat n) @ rest) \<noteq> CHR ''-''" using hd_nat_to_str_not_minus by simp
  with False ne parse_nat_str [OF assms, of "nat n"] nat_to_str_leading [of "nat n"] show ?thesis
    by (simp add: parse_number_def num_to_str_def Let_def)
qed

lemma ser_nonempty_start:
  "\<exists>c cs. ser gap ind v = c # cs \<and> \<not> is_ws c \<and> c \<noteq> CHR '']'' \<and> c \<noteq> CHR ''}'' \<and> c \<noteq> CHR '',''"
proof (cases v)
  case (JNum n)
  obtain d ds where d: "nat_to_str (nat \<bar>n\<bar>) = d # ds" by (cases "nat_to_str (nat \<bar>n\<bar>)") auto
  have "is_digit d" using nat_to_str_digits [of "nat \<bar>n\<bar>"] d by simp
  with JNum d show ?thesis
    by (cases "n < 0") (auto simp: num_to_str_def is_ws_def is_digit_def)
qed (auto simp: quote_json_def is_ws_def nl_def)

lemma ser_nonempty: "ser gap ind v \<noteq> []"
  using ser_nonempty_start [of gap ind v] by auto

lemma parse_value_ws: "\<forall>c \<in> set w. is_ws c \<Longrightarrow> parse_value f (w @ s) = parse_value f s"
  by (cases f) (simp_all add: skip_ws_append)

lemma parse_array_rest_ws: "\<forall>c \<in> set w. is_ws c \<Longrightarrow> parse_array_rest f acc (w @ s) = parse_array_rest f acc s"
  by (cases f) (simp_all add: skip_ws_append)

lemma parse_object_rest_ws: "\<forall>c \<in> set w. is_ws c \<Longrightarrow> parse_object_rest f acc (w @ s) = parse_object_rest f acc s"
  by (cases f) (simp_all add: skip_ws_append)

text \<open>The elements after the first element of an array, and the members after the first
  member of an object, parse back for any printer of the elements that parses back.\<close>

lemma ws_not_digit: "is_ws c \<Longrightarrow> \<not> is_digit c"
  by (auto simp: is_ws_def is_digit_def)

lemma comma_not_digit: "\<not> is_digit (CHR '','')"
  by (simp add: is_digit_def)

lemma tail_start:
  assumes "\<forall>c \<in> set lc. is_ws c" "\<not> is_digit d"
  shows "concat (map (\<lambda>y. (CHR '','' # lo) @ pr y) ys) @ lc @ d # r \<noteq> [] \<and>
         \<not> is_digit (hd (concat (map (\<lambda>y. (CHR '','' # lo) @ pr y) ys) @ lc @ d # r))"
  using assms by (cases ys; cases lc) (auto simp: comma_not_digit ws_not_digit)

lemma parse_array_tail:
  assumes ws_lo: "\<forall>c \<in> set lo. is_ws c" and ws_lc: "\<forall>c \<in> set lc. is_ws c"
    and pr: "\<forall>y \<in> set ys. \<forall>g r. length (pr y) < g \<longrightarrow> (r = [] \<or> \<not> is_digit (hd r)) \<longrightarrow>
               parse_value g (pr y @ r) = Some (y, r)"
    and ne: "\<forall>y \<in> set ys. pr y \<noteq> []"
    and fuel: "length (concat (map (\<lambda>y. (CHR '','' # lo) @ pr y) ys) @ lc @ '']'') < f"
  shows "parse_array_rest f acc (concat (map (\<lambda>y. (CHR '','' # lo) @ pr y) ys) @ lc @ CHR '']'' # r) =
           Some (rev acc @ ys, r)"
  using pr ne fuel
proof (induction ys arbitrary: f acc)
  case Nil
  then obtain g where "f = Suc g" by (cases f) auto
  with ws_lc show ?case by (simp add: skip_ws_append is_ws_def)
next
  case (Cons y ys)
  let ?more = "concat (map (\<lambda>y. (CHR '','' # lo) @ pr y) ys) @ lc @ CHR '']'' # r"
  from Cons.prems(3) obtain g where f: "f = Suc g" by (cases f) auto
  have nd: "?more = [] \<or> \<not> is_digit (hd ?more)"
    using tail_start [OF ws_lc, of "CHR '']''" lo pr ys r] by (simp add: is_digit_def)
  from Cons.prems f have "length (pr y) < g" by simp
  with Cons.prems(1) nd have v: "parse_value g (lo @ pr y @ ?more) = Some (y, ?more)"
    by (simp add: parse_value_ws [OF ws_lo])
  from Cons.prems f have "length (concat (map (\<lambda>y. (CHR '','' # lo) @ pr y) ys) @ lc @ '']'') < g"
    by simp
  with Cons.prems have "parse_array_rest g (y # acc) ?more = Some (rev (y # acc) @ ys, r)"
    by (intro Cons.IH) simp_all
  with v f show ?case by (simp add: is_ws_def)
qed

lemma parse_member_txt:
  assumes ws_sp: "\<forall>c \<in> set sp. is_ws c"
    and pr: "\<forall>g r. length (pr v) < g \<longrightarrow> (r = [] \<or> \<not> is_digit (hd r)) \<longrightarrow> parse_value g (pr v @ r) = Some (v, r)"
    and fuel: "length (quote_json k @ CHR '':'' # sp @ pr v) < f"
    and r: "r = [] \<or> \<not> is_digit (hd r)"
  shows "parse_member f (quote_json k @ CHR '':'' # sp @ pr v @ r) = Some ((k, v), r)"
proof -
  from fuel obtain g where f: "f = Suc g" by (cases f) auto
  from fuel f have "length (pr v) < g" by (simp add: quote_json_def)
  with pr r have "parse_value g (pr v @ r) = Some (v, r)" by blast
  then have "parse_value g (sp @ pr v @ r) = Some (v, r)"
    by (simp add: parse_value_ws [OF ws_sp])
  with f show ?thesis by (simp add: quote_json_def parse_chars_quote is_ws_def)
qed

lemma parse_object_tail:
  assumes ws_lo: "\<forall>c \<in> set lo. is_ws c" and ws_lc: "\<forall>c \<in> set lc. is_ws c" and ws_sp: "\<forall>c \<in> set sp. is_ws c"
    and pr: "\<forall>p \<in> set ps. \<forall>g r. length (pr (snd p)) < g \<longrightarrow> (r = [] \<or> \<not> is_digit (hd r)) \<longrightarrow>
               parse_value g (pr (snd p) @ r) = Some (snd p, r)"
    and fuel: "length (concat (map (\<lambda>p. (CHR '','' # lo) @ (\<lambda>(k, v). quote_json k @ CHR '':'' # sp @ pr v) p) ps) @
                 lc @ ''}'') < f"
  shows "parse_object_rest f acc
           (concat (map (\<lambda>p. (CHR '','' # lo) @ (\<lambda>(k, v). quote_json k @ CHR '':'' # sp @ pr v) p) ps) @
            lc @ CHR ''}'' # r) = Some (rev acc @ ps, r)"
  using pr fuel
proof (induction ps arbitrary: f acc)
  case Nil
  then obtain g where "f = Suc g" by (cases f) auto
  with ws_lc show ?case by (simp add: skip_ws_append is_ws_def)
next
  case (Cons p ps)
  obtain k v where p: "p = (k, v)" by (cases p)
  let ?mt = "\<lambda>(k, v). quote_json k @ CHR '':'' # sp @ pr v"
  let ?more = "concat (map (\<lambda>p. (CHR '','' # lo) @ ?mt p) ps) @ lc @ CHR ''}'' # r"
  from Cons.prems(2) obtain g where f: "f = Suc g" by (cases f) auto
  have nd: "?more = [] \<or> \<not> is_digit (hd ?more)"
    using tail_start [OF ws_lc, of "CHR ''}''" lo ?mt ps r] by (simp add: is_digit_def)
  from Cons.prems(2) f p have "length (quote_json k @ CHR '':'' # sp @ pr v) < g" by simp
  with Cons.prems(1) p nd have m: "parse_member g (quote_json k @ CHR '':'' # sp @ pr v @ ?more) = Some ((k, v), ?more)"
    by (intro parse_member_txt [OF ws_sp]) simp_all
  have m': "parse_member g (lo @ quote_json k @ CHR '':'' # sp @ pr v @ ?more) = Some ((k, v), ?more)"
  proof (cases g)
    case 0
    with m show ?thesis by simp
  next
    case (Suc g')
    with m show ?thesis by (simp add: skip_ws_append [OF ws_lo])
  qed
  from Cons.prems(2) f have "length (concat (map (\<lambda>p. (CHR '','' # lo) @ ?mt p) ps) @ lc @ ''}'') < g"
    by (simp add: p quote_json_def)
  with Cons.prems(1) have "parse_object_rest g ((k, v) # acc) ?more = Some (rev ((k, v) # acc) @ ps, r)"
    by (intro Cons.IH) simp_all
  with m' f p show ?case by (simp add: is_ws_def)
qed

text \<open>Every serialization parses back to the value, for any indentation made of whitespace
  and any rest that does not continue a number, with fuel above the printed length:
  structural induction on the value, the tails by the lemmas above.\<close>

lemma parse_ser:
  assumes gap: "\<forall>c \<in> set gap. is_ws c"
  shows "\<forall>c \<in> set ind. is_ws c \<Longrightarrow> length (ser gap ind v) < f \<Longrightarrow> rest = [] \<or> \<not> is_digit (hd rest) \<Longrightarrow>
         parse_value f (ser gap ind v @ rest) = Some (v, rest)"
proof (induction v arbitrary: ind f rest)
  case JNull
  then obtain g where "f = Suc g" by (cases f) auto
  then show ?case by (simp add: is_ws_def)
next
  case (JBool b)
  then obtain g where "f = Suc g" by (cases f) auto
  then show ?case by (cases b) (simp_all add: is_ws_def)
next
  case (JNum n)
  then obtain g where f: "f = Suc g" by (cases f) auto
  obtain c cs where c: "num_to_str n = c # cs" and cd: "c = CHR ''-'' \<or> is_digit c"
    using num_start by blast
  from cd have nw: "\<not> is_ws c" and other: "c \<noteq> CHR ''['' \<and> c \<noteq> CHR ''{'' \<and> c \<noteq> CHR 0x22 \<and>
      c \<noteq> CHR ''n'' \<and> c \<noteq> CHR ''t'' \<and> c \<noteq> CHR ''f''"
    by (auto simp: is_ws_def is_digit_def)
  have "parse_number (num_to_str n @ rest) = Some (JNum n, rest)"
    using JNum.prems(3) by (rule parse_number_num)
  with f c nw other show ?case by simp
next
  case (JStr s)
  then obtain g where "f = Suc g" by (cases f) auto
  then show ?case by (simp add: quote_json_def parse_chars_quote is_ws_def)
next
  case (JArr xs)
  then obtain g where f: "f = Suc g" by (cases f) auto
  show ?case
  proof (cases xs)
    case Nil
    with f show ?thesis by (simp add: is_ws_def)
  next
    case (Cons x xs')
    let ?ind = "ind @ gap"
    let ?lo = "if gap = [] then [] else nl # ?ind"
    let ?lc = "if gap = [] then [] else nl # ind"
    let ?more = "concat (map (\<lambda>y. (CHR '','' # ?lo) @ ser gap ?ind y) xs') @ ?lc @ CHR '']'' # rest"
    have wi: "\<forall>c \<in> set ?ind. is_ws c" using JArr.prems(1) gap by auto
    have wlo: "\<forall>c \<in> set ?lo. is_ws c" and wlc: "\<forall>c \<in> set ?lc. is_ws c"
      using wi JArr.prems(1) by (auto simp: nl_def is_ws_def)
    have ser: "ser gap ind (JArr xs) @ rest = CHR ''['' # ?lo @ ser gap ?ind x @ ?more"
      unfolding Cons ser_JArr_Cons by simp
    obtain d ds where d: "ser gap ?ind x = d # ds" and dn: "\<not> is_ws d" "d \<noteq> CHR '']''"
      using ser_nonempty_start [of gap ?ind x] by blast
    have nd: "?more = [] \<or> \<not> is_digit (hd ?more)"
      using tail_start [OF wlc, of "CHR '']''" ?lo "ser gap ?ind" xs' rest] by (simp add: is_digit_def)
    have lens: "length (ser gap ?ind x) < g \<and>
        length (concat (map (\<lambda>y. (CHR '','' # ?lo) @ ser gap ?ind y) xs') @ ?lc @ '']'') < g"
      using JArr.prems(2) f unfolding Cons ser_JArr_Cons by simp
    have px: "parse_value g (ser gap ?ind x @ ?more) = Some (x, ?more)"
      using JArr.IH [of x ?ind g ?more] Cons wi lens nd by simp
    have ih: "\<forall>y \<in> set xs'. \<forall>g r. length (ser gap ?ind y) < g \<longrightarrow> (r = [] \<or> \<not> is_digit (hd r)) \<longrightarrow>
                parse_value g (ser gap ?ind y @ r) = Some (y, r)"
      using JArr.IH Cons wi by simp
    have ne: "\<forall>y \<in> set xs'. ser gap ?ind y \<noteq> []"
      by (simp add: ser_nonempty)
    have pt: "parse_array_rest g [x] ?more = Some (x # xs', rest)"
      using parse_array_tail [OF wlo wlc ih ne, of g "[x]" rest] lens by simp
    have "parse_value (Suc g) (CHR ''['' # ?lo @ ser gap ?ind x @ ?more) = Some (JArr xs, rest)"
      using px pt dn by (simp add: d skip_ws_append [OF wlo] is_ws_def Cons del: ser.simps)
    then show ?thesis unfolding f ser .
  qed
next
  case (JObj ps)
  then obtain g where f: "f = Suc g" by (cases f) auto
  show ?case
  proof (cases ps)
    case Nil
    with f show ?thesis by (simp add: is_ws_def)
  next
    case (Cons p ps')
    obtain k v where p: "p = (k, v)" by (cases p)
    let ?ind = "ind @ gap"
    let ?lo = "if gap = [] then [] else nl # ?ind"
    let ?lc = "if gap = [] then [] else nl # ind"
    let ?sp = "if gap = [] then [] else '' ''"
    let ?mt = "\<lambda>(k, v). quote_json k @ CHR '':'' # ?sp @ ser gap ?ind v"
    let ?more = "concat (map (\<lambda>p. (CHR '','' # ?lo) @ ?mt p) ps') @ ?lc @ CHR ''}'' # rest"
    have wi: "\<forall>c \<in> set ?ind. is_ws c" using JObj.prems(1) gap by auto
    have wlo: "\<forall>c \<in> set ?lo. is_ws c" and wlc: "\<forall>c \<in> set ?lc. is_ws c" and wsp: "\<forall>c \<in> set ?sp. is_ws c"
      using wi JObj.prems(1) by (auto simp: nl_def is_ws_def)
    have ser: "ser gap ind (JObj ps) @ rest = CHR ''{'' # ?lo @ quote_json k @ CHR '':'' # ?sp @ ser gap ?ind v @ ?more"
      unfolding Cons p ser_JObj_Cons by simp
    have nd: "?more = [] \<or> \<not> is_digit (hd ?more)"
      using tail_start [OF wlc, of "CHR ''}''" ?lo ?mt ps' rest] by (simp add: is_digit_def)
    have lens: "length (quote_json k @ CHR '':'' # ?sp @ ser gap ?ind v) < g \<and>
        length (concat (map (\<lambda>p. (CHR '','' # ?lo) @ ?mt p) ps') @ ?lc @ ''}'') < g"
      using JObj.prems(2) f unfolding Cons p ser_JObj_Cons by simp
    have ihv: "\<forall>g r. length (ser gap ?ind v) < g \<longrightarrow> (r = [] \<or> \<not> is_digit (hd r)) \<longrightarrow>
                parse_value g (ser gap ?ind v @ r) = Some (v, r)"
      using JObj.IH [of p v] Cons p wi by simp
    have pm: "parse_member g (quote_json k @ CHR '':'' # ?sp @ ser gap ?ind v @ ?more) = Some ((k, v), ?more)"
      using parse_member_txt [where sp = ?sp and pr = "ser gap ?ind" and v = v and k = k and f = g and r = ?more]
        wsp ihv nd lens by blast
    have ih: "\<forall>q \<in> set ps'. \<forall>g r. length (ser gap ?ind (snd q)) < g \<longrightarrow> (r = [] \<or> \<not> is_digit (hd r)) \<longrightarrow>
                parse_value g (ser gap ?ind (snd q) @ r) = Some (snd q, r)"
      using JObj.IH Cons wi by (metis list.set_intros(2) prod.collapse prod_set_simps(2) singletonI)
    have pt: "parse_object_rest g [(k, v)] ?more = Some ((k, v) # ps', rest)"
      using parse_object_tail [OF wlo wlc wsp ih, of g "[(k, v)]" rest] lens by simp
    have "parse_value (Suc g) (CHR ''{'' # ?lo @ quote_json k @ CHR '':'' # ?sp @ ser gap ?ind v @ ?more) =
        Some (JObj ps, rest)"
      using pm pt by (simp add: skip_ws_append [OF wlo] is_ws_def Cons p quote_json_def del: ser.simps)
    then show ?thesis unfolding f ser .
  qed
qed

text \<open>C2: \<open>JSON.stringify(v, null, n)\<close> is read back as \<open>v\<close> by the parser, for every
  value and every indentation: the printed text is JSON that denotes the value.\<close>

theorem json_roundtrip: "parse_json (json_stringify v n) = Some v"
proof -
  let ?gap = "replicate (min 10 n) CHR '' ''"
  have gap: "\<forall>c \<in> set ?gap. is_ws c" by (simp add: is_ws_def)
  have "parse_value (Suc (length (ser ?gap [] v))) (ser ?gap [] v @ []) = Some (v, [])"
    using parse_ser [OF gap, of "[]" v "Suc (length (ser ?gap [] v))" "[]"] by simp
  then show ?thesis by (simp add: parse_json_def json_stringify_def)
qed

end
