(* ===== verification/Spec2Isabelle.thy ===== *)
theory Spec2Isabelle
  imports Runtime JsonParse
begin

text \<open>
  \<^bold>\<open>A verification library for \<open>src/karabiner.js\<close>.\<close>

  The program is one Node.js script. Helper functions build lists of Karabiner-Elements
  manipulators (\<open>fromTo\<close>, \<open>spaceFN\<close>, \<open>swap\<close>, lines 7--90). Device descriptors are
  built from shared defaults by object spread and override (\<open>DEVICE_DEFAULTS\<close>,
  \<open>IDENTIFIER_DEFAULTS\<close>, \<open>APPLE_INTERNAL\<close>, \<open>REALFORCE\<close>, \<open>YUBIKEY\<close>, lines 92--138).
  Profiles are built the same way: \<open>PARAMETER_DEFAULTS\<close> and \<open>VANILLA_PROFILE\<close> (lines
  140--174), and \<open>DEFAULT_PROFILE\<close> (lines 176--348), which spreads the vanilla profile
  and adds five complex-modification rules. The script then writes
  \<open>JSON.stringify({global, profiles: [DEFAULT_PROFILE, VANILLA_PROFILE]}, null, 2)\<close>
  followed by a newline to standard output (lines 350--363). The keyboard-remapping runtime
  that reads this document is an external program; what the document means is stated
  against abstract models of it, written from the specification.

  \<^bold>\<open>Theories.\<close>
  \<^item> \<open>Prelude\<close>: the named collection \<open>js_eval\<close> of evaluation rules, decimal printing
    and reading of naturals (\<open>nat_to_str\<close>, \<open>str_to_nat\<close>, with their round trip),
    \<open>Array.prototype.join\<close> (\<open>join\<close>), and shared lemmas on lists and association lists.
  \<^item> \<open>JsValue\<close>: JavaScript values as the datatype \<open>jval\<close>, whose objects are property
    lists kept in the order \<open>[[OwnPropertyKeys]]\<close> enumerates them. It models the language,
    not code of the repository: \<open>CreateDataProperty\<close> (\<open>obj_put\<close>),
    \<open>CopyDataProperties\<close> (\<open>put_all\<close>, the spread \<open>...x\<close>) and the evaluation of object
    literals (\<open>eval_defs\<close>, \<open>obj_lit\<close>). Library lemmas: the invariant \<open>wf_props\<close>
    (distinct keys, array indices first in ascending order) holds of every literal; the
    last write wins; \<open>put_all\<close> refines the association-list updates of HOL-Library.
    Properties: the merge laws of section 8 of the specification, spread into an empty
    literal is the identity and spreading twice is idempotent.
  \<^item> \<open>Combinators\<close>: \<open>fromTo\<close>, \<open>spaceFN\<close> and \<open>swap\<close>, each a HOL list of its
    manipulators. An array literal of spreads \<open>[...a, ...b]\<close> is \<open>a @ b\<close>.
    \<open>simple_remap\<close> is the runtime's reading of a list of simple modifications: the
    first entry whose \<open>from.key_code\<close> matches applies. Properties: the shape of each
    helper's output, and that \<open>swap\<close> exchanges its two keys and fixes every other key.
  \<^item> \<open>Devices\<close>: the five descriptor literals, and a typed decoding
    (\<open>decode_device\<close> into the record \<open>device\<close>). Properties: each device overrides only
    the fields its literal names; the key order is uniform; the decoded identifiers; and
    what the Realforce remapping does to every key.
  \<^item> \<open>Profiles\<close>: the parameter defaults, the two profiles and the five rules of
    \<open>DEFAULT_PROFILE\<close>, with views that extract the key codes, the layer bindings of the
    SpaceFN rule and the simple bindings. Properties: the default profile keeps the vanilla
    profile's keys and values except those it overrides; what the SpaceFN layer binds; how
    caps lock composes; and two findings (the layer's digit row against the function-key
    row, the key codes the runtime does not know).
  \<^item> \<open>Runtime\<close>: how the runtime executes complex modifications (section 4.3 of the
    specification), as the state record \<open>rt_state\<close> (variables, and the held chords with the
    actions their release runs), the step function \<open>rt_step\<close> on the events \<open>KeyDown\<close>,
    \<open>ChordDown\<close> (keys in press order, milliseconds between the presses) and
    \<open>ChordUp\<close>, its run \<open>rt_run\<close>, and the reachable states \<open>rt_reach\<close> as an inductive
    predicate. The first manipulator in rule order whose \<open>from\<close> matches and whose
    conditions hold is applied; a chord's threshold is the entry's parameter, else the
    profile's. Properties, on the \<open>Default\<close> profile: for every binding of the layer, a
    session of chord, repeated presses, release and press behaves as section 4.3 says (C6);
    in every reachable state \<open>SpaceFN\<close> is 0 or 1 and is 0 when no chord is held, by rule
    induction with the invariant \<open>layer_inv\<close>, which every step keeps for manipulators
    that obey \<open>layer_discipline\<close> (C7); the chord is recognised exactly below the entry's
    500 ms, not the profile's 50 ms (C8). The proofs go through generic lemmas about a
    layer of \<open>spaceFN\<close> calls with distinct triggers, instantiated once.
  \<^item> \<open>Stringify\<close>: \<open>JSON.stringify(v, null, space)\<close> as ECMAScript specifies it
    (SerializeJSONProperty, QuoteJSONString, the gap of \<open>min 10 space\<close> spaces and the
    indentation), as the mutually recursive \<open>ser\<close>.
  \<^item> \<open>JsonParse\<close>: a JSON parser (RFC 8259, restricted to the integers the model's
    numbers are), which states what a consumer of the output reads. It uses fuel: each
    call of \<open>parse_value\<close> consumes one unit, and \<open>parse_json s\<close> starts with
    \<open>Suc (length s)\<close>. Fuel is enough because every nested value is read from a strictly
    shorter suffix of the input, so the depth of the calls never exceeds the length of the
    input. The main theorem \<open>json_roundtrip\<close> (C2) is that parsing the output of
    \<open>json_stringify\<close> gives the value back, for every value and every \<open>space\<close>. Its
    proof is by structural induction on \<open>jval\<close>, with the fuel bound carried as a
    hypothesis of \<open>parse_ser\<close>.
  \<^item> This theory: the document and the text the program writes (\<open>document\<close>,
    \<open>program_output\<close>). Properties spanning all components: the output parses back to
    the document (C1); the profile order and the single selected profile; the devices of
    each profile.

  \<^bold>\<open>Model choices.\<close> JavaScript numbers are \<open>int\<close>: the script only writes integers
  below \<open>2^53\<close>, and \<open>num_to_str\<close> prints those exactly as \<open>Number::toString\<close> does.
  A \<open>char\<close> stands for one UTF-16 code unit; the script's strings are ASCII. Object
  keys follow JavaScript's enumeration order, so that property order in the output (which
  the runtime and a reader see) is part of what is proved, not abstracted. In the runtime
  model an unset variable reads as 0 and a chord is recognised when its presses are
  strictly closer than the threshold.

  \<^bold>\<open>Not modelled.\<close> The write to \<open>process.stdout\<close> is modelled as the string written
  (\<open>program_output\<close>), not as I/O. Of the runtime, modifiers, key-up events of single
  keys and the timing of \<open>to_if_alone\<close>, \<open>to_if_held_down\<close> and \<open>lazy\<close> are not
  modelled, so the dual-role rules (caps lock, return, tab) are stated only as data
  (C23). A chord is released as a whole, in the order its entry requires. Planned: a
  bound that every number of the document is a safe integer and every string is ASCII,
  associativity of spread, and the equivalence of compact and indented output up to
  whitespace.
\<close>

definition document :: jval where
  "document =
     obj_lit
      [Field ''global'' (obj_lit
         [Field ''check_for_updates_on_startup'' (JBool True),
          Field ''show_in_menu_bar'' (JBool True),
          Field ''show_profile_name_in_menu_bar'' (JBool False)]),
       Field ''profiles'' (JArr [DEFAULT_PROFILE, VANILLA_PROFILE])]"

definition program_output :: string where
  "program_output = json_stringify document 2 @ [nl]"

lemma document_eval:
  "document =
     JObj [(''global'', JObj [(''check_for_updates_on_startup'', JBool True), (''show_in_menu_bar'', JBool True),
                             (''show_profile_name_in_menu_bar'', JBool False)]),
           (''profiles'', JArr [DEFAULT_PROFILE, VANILLA_PROFILE])]"
  by (simp add: document_def obj_lit_eval)

text \<open>C3: the document lists two profiles, \<open>Default\<close> first and \<open>Vanilla\<close> second.\<close>

theorem document_profiles_order:
  "\<exists>ps. get document ''profiles'' = Some (JArr ps) \<and>
     map (\<lambda>p. get p ''name'') ps = [Some (JStr ''Default''), Some (JStr ''Vanilla'')]"
  by (simp add: document_eval DEFAULT_PROFILE_eval VANILLA_PROFILE_eval)

text \<open>C4: exactly one profile of the document is selected, the first one; every profile has a boolean \<open>selected\<close> field.\<close>

theorem exactly_one_selected:
  "\<exists>ps. get document ''profiles'' = Some (JArr ps) \<and>
     length (filter (\<lambda>p. get p ''selected'' = Some (JBool True)) ps) = 1 \<and>
     get (hd ps) ''selected'' = Some (JBool True) \<and>
     list_all (\<lambda>p. get p ''selected'' \<in> {Some (JBool True), Some (JBool False)}) ps"
  by (simp add: document_eval DEFAULT_PROFILE_eval VANILLA_PROFILE_eval)

text \<open>C5: the \<open>Default\<close> profile lists the YubiKey (ignored), the Realforce and the Apple internal keyboard, by vendor and product id; the \<open>Vanilla\<close> profile lists the YubiKey only.\<close>

theorem profile_devices:
  "\<exists>ps. get document ''profiles'' = Some (JArr ps) \<and>
     map (\<lambda>p. map_option (map (map_option (\<lambda>d. (vendor_id d, product_id d, ignore d)) \<circ> decode_device))
                (as_arr (get p ''devices''))) ps =
       [Some [Some (4176, 1031, True), Some (2131, 273, False), Some (1452, 628, False)],
        Some [Some (4176, 1031, True)]]"
  by (simp add: document_eval DEFAULT_PROFILE_eval VANILLA_PROFILE_eval decode_device_def
                YUBIKEY_eval REALFORCE_eval APPLE_INTERNAL_eval js_eval del: fromTo_eval)

text \<open>C1: the text the program writes to standard output is JSON followed by a newline,
  and it parses back to exactly the document the program builds.\<close>

theorem output_roundtrip: "parse_json program_output = Some document"
proof -
  let ?s = "json_stringify document 2"
  have gap: "\<forall>c \<in> set (replicate (min 10 2) CHR '' ''). is_ws c" by (simp add: is_ws_def)
  have "parse_value (Suc (length (?s @ [nl]))) (?s @ [nl]) = Some (document, [nl])"
    using parse_ser [OF gap, of "[]" document "Suc (length (?s @ [nl]))" "[nl]"]
    by (simp add: json_stringify_def nl_def is_digit_def)
  then show ?thesis by (simp add: parse_json_def program_output_def nl_def is_ws_def)
qed

end
